theory Spec2Isabelle
  imports Main
begin

unbundle bit_operations_syntax

section \<open>FTP2NetDrive: the FTPS bootstrap of \<^verbatim>\<open>ftp_server.py\<close>\<close>

text \<open>
  The development embeds the three pieces of \<^verbatim>\<open>ftp_server.py\<close> that decide how a
  connection is secured: the class method \<^verbatim>\<open>get_ssl_context\<close> with its cache in the
  class attribute \<^verbatim>\<open>_ssl_context\<close>, the constructor of \<^verbatim>\<open>ConfiguredFTPHandler\<close> with
  its manual handshake loop, and \<^verbatim>\<open>main\<close>. The libraries the file calls (pyOpenSSL,
  pyftpdlib, \<^verbatim>\<open>select\<close>, \<^verbatim>\<open>os\<close>) are not part of the program: every call into them is
  an oracle of the environment, and what the program does with the answer is the model.
\<close>

subsection \<open>Exceptions, connections and observable events\<close>

text \<open>
  Python exceptions are values. All of them derive from \<^verbatim>\<open>Exception\<close>, so each is caught
  by an \<^verbatim>\<open>except Exception\<close> clause; \<^verbatim>\<open>WantReadError\<close> and \<^verbatim>\<open>WantWriteError\<close> are the two
  "not ready yet" signals of \<^verbatim>\<open>SSL.Connection.do_handshake\<close>.
\<close>

datatype exn =
    WantReadError
  | WantWriteError
  | SSL_Error string
  | TimeoutError string
  | RuntimeError string
  | TypeError string
  | ValueError string
  | OSError string

text \<open>
  \<open>RawConn\<close> is the accepted socket handed to the constructor; \<open>SslConn i\<close> is the
  \<^verbatim>\<open>SSL.Connection(ctx, conn)\<close> built over it from the context object with identity \<open>i\<close>.
\<close>

datatype conn = RawConn | SslConn nat

text \<open>
  The calls with an effect outside the process, and the diagnostic prints that carry an
  exception, in the order the program issues them. \<open>Select r w x t\<close> is
  \<^verbatim>\<open>select.select(r, w, x, t)\<close>: \<open>r\<close> is waited on for reading, \<open>w\<close> for writing.
  \<open>ServerCreated h p\<close> is the moment at which \<^verbatim>\<open>ThreadedFTPServer((h, p), handler)\<close>, the
  library constructor, binds the listening socket to the address and puts it into
  listening state; \<open>ServeForever\<close> is \<^verbatim>\<open>server.serve_forever()\<close>, the accept loop.
\<close>

datatype event =
    DoHandshake
  | Select "conn list" "conn list" "conn list" nat
  | Close conn
  | SuperInit conn
  | PrintCtxError exn
  | PrintHandshakeFailed exn
  | PrintDriveError string
  | PrintMainCritical
  | ServerCreated string int
  | ServeForever

subsection \<open>The TLS context and the process state\<close>

datatype ssl_method = SSLv23_METHOD

text \<open>
  A \<^verbatim>\<open>SSL.Context\<close> object. \<open>ctx_id\<close> is the identity of the object (two contexts are
  the same instance iff their identities agree), \<open>ctx_options\<close> the option bit mask, the
  other two fields the files loaded into it.
\<close>

record Context =
  ctx_id :: nat
  ctx_method :: ssl_method
  ctx_options :: int
  ctx_privatekey :: "string option"
  ctx_certificate :: "string option"

record user_entry =
  pwd :: string
  home :: string
  perm :: string

record server =
  address :: "string \<times> int"
  max_cons :: nat
  max_cons_per_ip :: nat

text \<open>
  The state of the process: the class attributes of \<^verbatim>\<open>ConfiguredFTPHandler\<close> that the
  file reads or writes (\<open>ssl_context\<close> is \<^verbatim>\<open>_ssl_context\<close>, with \<open>None\<close> for "the class
  has no such attribute"), the server object once it exists, the allocation counter that
  gives each new context its identity, a clock that only the readiness waits advance, and
  the events issued so far.
\<close>

record state =
  implicit_tls :: bool
  tls_control_required :: bool
  tls_data_required :: bool
  cls_certfile :: "string option"
  cls_keyfile :: "string option"
  cls_timeout :: nat
  ssl_context :: "Context option"
  authorizer :: "string \<rightharpoonup> user_entry"
  banner :: string
  lan_ip :: "string option"
  the_server :: "server option"
  next_id :: nat
  clock :: nat
  trace :: "event list"

definition emit :: "event list \<Rightarrow> state \<Rightarrow> state" where
  "emit evs s = s\<lparr>trace := trace s @ evs\<rparr>"

subsection \<open>The environment\<close>

text \<open>
  pyOpenSSL: the four option constants the program names, the options a fresh context
  starts with, and for each loading step the exception it raises, if any
  (\<open>None\<close>: the call returns).
\<close>

record ssl_lib =
  OP_NO_SSLv2 :: int
  OP_NO_SSLv3 :: int
  OP_NO_TLSv1 :: int
  OP_NO_TLSv1_1 :: int
  default_options :: int
  use_privatekey_file :: "string option \<Rightarrow> exn option"
  use_certificate_file :: "string option \<Rightarrow> exn option"
  check_privatekey :: "string option \<Rightarrow> string option \<Rightarrow> exn option"

text \<open>
  One accepted connection: what \<^verbatim>\<open>conn.getpeername()\<close>, \<^verbatim>\<open>SSL.Connection(ctx, conn)\<close> and
  \<^verbatim>\<open>super().__init__\<close> raise, if anything; what the \<open>k\<close>-th call of
  \<^verbatim>\<open>ssl_conn.do_handshake()\<close> raises (\<open>None\<close>: the handshake is complete); how long
  after the start of the \<open>k\<close>-th readiness wait the socket becomes readable
  (\<open>None\<close>: never); and whether the base constructor finds the socket still connected.
\<close>

record conn_env =
  getpeername :: "exn option"
  new_connection :: "exn option"
  do_handshake :: "nat \<Rightarrow> exn option"
  readable_after :: "nat \<Rightarrow> nat option"
  super_init :: "exn option"
  connected :: bool

text \<open>The operating system as \<^verbatim>\<open>main\<close> sees it.\<close>

record os_env =
  isdir :: "string \<Rightarrow> bool"
  get_lan_ip :: string
  bind_listen :: "string \<times> int \<Rightarrow> exn option"

subsection \<open>\<^verbatim>\<open>get_ssl_context\<close>\<close>

text \<open>
  The body of the \<^verbatim>\<open>try\<close> block, lines 86 to 90, on a fresh context object \<open>i\<close>:
  \<^verbatim>\<open>set_options\<close> adds the mask to the options the context has, then the key file, the
  certificate file and the consistency check, each of which may raise.
\<close>

definition build_context :: "ssl_lib \<Rightarrow> nat \<Rightarrow> string option \<Rightarrow> string option \<Rightarrow> exn + Context" where
  "build_context lib i kf cf =
     (let ctx = \<lparr>ctx_id = i, ctx_method = SSLv23_METHOD, ctx_options = default_options lib,
                 ctx_privatekey = None, ctx_certificate = None\<rparr>;
          ctx = ctx\<lparr>ctx_options := ctx_options ctx OR
                 (OP_NO_SSLv2 lib OR OP_NO_SSLv3 lib OR OP_NO_TLSv1 lib OR OP_NO_TLSv1_1 lib)\<rparr>
      in case use_privatekey_file lib kf of
           Some e \<Rightarrow> Inl e
         | None \<Rightarrow>
             (let ctx = ctx\<lparr>ctx_privatekey := kf\<rparr>
              in case use_certificate_file lib cf of
                   Some e \<Rightarrow> Inl e
                 | None \<Rightarrow>
                     (let ctx = ctx\<lparr>ctx_certificate := cf\<rparr>
                      in case check_privatekey lib kf cf of
                           Some e \<Rightarrow> Inl e
                         | None \<Rightarrow> Inr ctx)))"

text \<open>
  The class method: with the attribute present it is returned as it is; otherwise a
  context object is allocated and built, stored on success, and on any exception the error
  is printed and \<^verbatim>\<open>None\<close> returned with the attribute still absent.
\<close>

definition get_ssl_context :: "ssl_lib \<Rightarrow> state \<Rightarrow> Context option \<times> state" where
  "get_ssl_context lib s =
     (case ssl_context s of
        Some c \<Rightarrow> (Some c, s)
      | None \<Rightarrow>
          (let s1 = s\<lparr>next_id := Suc (next_id s)\<rparr>
           in case build_context lib (next_id s) (cls_keyfile s) (cls_certfile s) of
                Inr ctx \<Rightarrow> (Some ctx, s1\<lparr>ssl_context := Some ctx\<rparr>)
              | Inl e \<Rightarrow> (None, emit [PrintCtxError e] s1)))"

subsection \<open>The constructor of \<^verbatim>\<open>ConfiguredFTPHandler\<close>\<close>

text \<open>
  \<^verbatim>\<open>select.select([ssl_conn], [], [], timeout)\<close>: returns the connection as readable if it
  becomes readable within \<open>timeout\<close>, and an empty list once \<open>timeout\<close> has passed
  otherwise. The clock advances by the time spent in the call.
\<close>

definition select_readable :: "conn_env \<Rightarrow> nat \<Rightarrow> conn \<Rightarrow> nat \<Rightarrow> state \<Rightarrow> bool \<times> state" where
  "select_readable ce k c timeout s =
     (let s1 = emit [Select [c] [] [] timeout] s
      in case readable_after ce k of
           Some d \<Rightarrow> if d \<le> timeout then (True, s1\<lparr>clock := clock s1 + d\<rparr>)
                     else (False, s1\<lparr>clock := clock s1 + timeout\<rparr>)
         | None \<Rightarrow> (False, s1\<lparr>clock := clock s1 + timeout\<rparr>))"

text \<open>
  The \<^verbatim>\<open>while True\<close> loop of lines 49 to 59; \<open>k\<close> counts the attempts made so far. The
  loop has no bound of its own (a peer that keeps the socket readable without completing
  the handshake keeps it running), so the model takes fuel and returns \<open>None\<close> when it
  runs out. \<open>Inr ()\<close> is the \<^verbatim>\<open>break\<close>, \<open>Inl e\<close> an exception leaving the loop: only
  \<^verbatim>\<open>WantReadError\<close> is handled inside.
\<close>

fun handshake_loop :: "nat \<Rightarrow> conn_env \<Rightarrow> conn \<Rightarrow> nat \<Rightarrow> nat \<Rightarrow> state \<Rightarrow> ((exn + unit) \<times> state) option" where
  "handshake_loop 0 ce c timeout k s = None"
| "handshake_loop (Suc fuel) ce c timeout k s =
     (let s1 = emit [DoHandshake] s
      in case do_handshake ce k of
           None \<Rightarrow> Some (Inr (), s1)
         | Some e \<Rightarrow>
             if e = WantReadError then
               (case select_readable ce k c timeout s1 of
                  (readable, s2) \<Rightarrow>
                    if \<not> readable then
                      Some (Inl (TimeoutError ''Timeout during TLS handshake while waiting for client.''), s2)
                    else handshake_loop fuel ce c timeout (Suc k) s2)
             else Some (Inl e, s1))"

text \<open>
  The \<^verbatim>\<open>try\<close> block of lines 40 to 62: \<open>Inr c\<close> is the secured connection that replaces
  \<^verbatim>\<open>conn\<close>, \<open>Inl e\<close> the exception that reaches the \<^verbatim>\<open>except Exception\<close> clause.
\<close>

definition manual_handshake :: "nat \<Rightarrow> ssl_lib \<Rightarrow> conn_env \<Rightarrow> state \<Rightarrow> ((exn + conn) \<times> state) option" where
  "manual_handshake fuel lib ce s =
     (case get_ssl_context lib s of
        (None, s1) \<Rightarrow> Some (Inl (RuntimeError ''get_ssl_context() returned None.''), s1)
      | (Some ctx, s1) \<Rightarrow>
          (case new_connection ce of
             Some e \<Rightarrow> Some (Inl e, s1)
           | None \<Rightarrow>
               (let ssl_conn = SslConn (ctx_id ctx); timeout = cls_timeout s1
                in case handshake_loop fuel ce ssl_conn timeout 0 s1 of
                     None \<Rightarrow> None
                   | Some (Inl e, s2) \<Rightarrow> Some (Inl e, s2)
                   | Some (Inr u, s2) \<Rightarrow> Some (Inr ssl_conn, s2))))"

text \<open>
  Lines 71 to 75: the call into the protocol handler's own constructor,
  \<^verbatim>\<open>TLS_FTPHandler.__init__\<close>. The library calls back into the program there: on a
  connected handler it asks the class for its context, through the \<^verbatim>\<open>get_ssl_context\<close>
  that the program overrides, and keeps what it returns.
\<close>

definition call_super_init :: "ssl_lib \<Rightarrow> conn_env \<Rightarrow> conn \<Rightarrow> state \<Rightarrow> (exn + unit) \<times> state" where
  "call_super_init lib ce c s =
     (let s1 = emit [SuperInit c] s
      in case super_init ce of
           Some e \<Rightarrow> (Inl e, s1)
         | None \<Rightarrow>
             if connected ce then (case get_ssl_context lib s1 of (r, s2) \<Rightarrow> (Inr (), s2))
             else (Inr (), s1))"

text \<open>
  \<^verbatim>\<open>ConfiguredFTPHandler.__init__\<close>. \<open>Inr ()\<close> is a normal return, \<open>Inl e\<close> an exception
  that leaves the constructor; \<open>None\<close> is the handshake loop still running when the fuel
  is spent.
\<close>

definition handler_init :: "nat \<Rightarrow> ssl_lib \<Rightarrow> conn_env \<Rightarrow> state \<Rightarrow> ((exn + unit) \<times> state) option" where
  "handler_init fuel lib ce s =
     (case getpeername ce of
        Some e \<Rightarrow> Some (Inl e, s)
      | None \<Rightarrow>
          if implicit_tls s then
            (case manual_handshake fuel lib ce s of
               None \<Rightarrow> None
             | Some (Inr c, s1) \<Rightarrow> Some (call_super_init lib ce c s1)
             | Some (Inl e, s1) \<Rightarrow>
                 Some (Inr (), emit [PrintHandshakeFailed e, Close RawConn] s1))
          else Some (call_super_init lib ce RawConn s))"

subsection \<open>\<^verbatim>\<open>main\<close>\<close>

datatype ftps_mode = explicit | implicit

text \<open>The namespace \<^verbatim>\<open>argparse\<close> returns; an option that was not given is \<open>None\<close>.\<close>

record args =
  drive :: string
  host :: string
  port :: int
  user :: "string option"
  password :: "string option"
  allow_anonymous :: bool
  ftps_mode :: "ftps_mode option"
  certfile :: "string option"
  keyfile :: "string option"

text \<open>Python's truth value of an optional string: \<^verbatim>\<open>None\<close> and \<^verbatim>\<open>''\<close> are false.\<close>

definition truthy :: "string option \<Rightarrow> bool" where
  "truthy x = (case x of None \<Rightarrow> False | Some v \<Rightarrow> v \<noteq> [])"

text \<open>
  \<^verbatim>\<open>DummyAuthorizer.add_user\<close> stores the account under its name and refuses a name that
  is taken; \<^verbatim>\<open>add_anonymous\<close> is \<^verbatim>\<open>add_user\<close> for the name \<^verbatim>\<open>anonymous\<close> with an empty
  password.
\<close>

definition add_user :: "string \<Rightarrow> string \<Rightarrow> string \<Rightarrow> string \<Rightarrow> (string \<rightharpoonup> user_entry) \<Rightarrow> exn + (string \<rightharpoonup> user_entry)" where
  "add_user username pw homedir pm table =
     (case table username of
        Some u \<Rightarrow> Inl (ValueError ''user already exists'')
      | None \<Rightarrow> Inr (table(username \<mapsto> \<lparr>pwd = pw, home = homedir, perm = pm\<rparr>)))"

definition add_anonymous :: "string \<Rightarrow> string \<Rightarrow> (string \<rightharpoonup> user_entry) \<Rightarrow> exn + (string \<rightharpoonup> user_entry)" where
  "add_anonymous homedir pm table = add_user ''anonymous'' [] homedir pm table"

text \<open>Lines 116 to 128: the TLS attributes of the handler class.\<close>

definition configure_tls :: "args \<Rightarrow> state \<Rightarrow> state" where
  "configure_tls a s =
     (let s1 = s\<lparr>implicit_tls := False, tls_control_required := False, tls_data_required := False\<rparr>
      in if truthy (certfile a) \<and> truthy (keyfile a) then
           (let s2 = s1\<lparr>cls_certfile := certfile a, cls_keyfile := keyfile a\<rparr>
            in if ftps_mode a = Some implicit then s2\<lparr>implicit_tls := True\<rparr>
               else s2\<lparr>tls_control_required := True, tls_data_required := True\<rparr>)
         else s1)"

text \<open>Lines 130 to 134: the accounts.\<close>

definition build_authorizer :: "args \<Rightarrow> exn + (string \<rightharpoonup> user_entry)" where
  "build_authorizer a =
     (case (if truthy (user a) \<and> truthy (password a)
            then add_user (the (user a)) (the (password a)) (drive a) ''elradfmw'' Map.empty
            else Inr Map.empty) of
        Inl e \<Rightarrow> Inl e
      | Inr t \<Rightarrow> if allow_anonymous a then add_anonymous (drive a) ''elradfmw'' t else Inr t)"

text \<open>
  Lines 139 to 151: the server object is constructed on the address and given its two
  connection ceilings; then, if the handler requires TLS, the context is asked for, and
  \<^verbatim>\<open>main\<close> enters the accept loop unless that fails. The library constructor
  \<^verbatim>\<open>ThreadedFTPServer(address, handler)\<close> calls back into the program before it binds: it
  calls the handler's \<^verbatim>\<open>get_ssl_context\<close>, the program's override, and drops the result.
\<close>

definition start_server :: "os_env \<Rightarrow> ssl_lib \<Rightarrow> string \<times> int \<Rightarrow> state \<Rightarrow> (exn + unit) \<times> state" where
  "start_server os lib addr s =
     (case get_ssl_context lib s of
        (r0, s0) \<Rightarrow>
          (case bind_listen os addr of
             Some e \<Rightarrow> (Inl e, s0)
           | None \<Rightarrow>
               (let s1 = emit [ServerCreated (fst addr) (snd addr)] s0;
                    s2 = s1\<lparr>the_server := Some \<lparr>address = addr, max_cons = 256, max_cons_per_ip = 5\<rparr>\<rparr>
                in if implicit_tls s2 \<or> tls_control_required s2 then
                     (case get_ssl_context lib s2 of
                        (None, s3) \<Rightarrow> (Inr (), emit [PrintMainCritical] s3)
                      | (Some ctx, s3) \<Rightarrow> (Inr (), emit [ServeForever] s3))
                   else (Inr (), emit [ServeForever] s2))))"

text \<open>
  \<^verbatim>\<open>main\<close>, from the parsed arguments on. \<open>Inr ()\<close> is a return of \<^verbatim>\<open>main\<close> (the early
  ones print first), \<open>Inl e\<close> an exception that ends it.
\<close>

definition main :: "os_env \<Rightarrow> ssl_lib \<Rightarrow> args \<Rightarrow> state \<Rightarrow> (exn + unit) \<times> state" where
  "main os lib a s =
     (if \<not> isdir os (drive a) then (Inr (), emit [PrintDriveError (drive a)] s)
      else
        (let s1 = configure_tls a s
         in case build_authorizer a of
              Inl e \<Rightarrow> (Inl e, s1)
            | Inr t \<Rightarrow>
                start_server os lib (host a, port a)
                  (s1\<lparr>authorizer := t, banner := ''pyftpdlib based ftpd ready.'',
                      lan_ip := Some (get_lan_ip os)\<rparr>)))"

section \<open>Vocabulary of the properties\<close>

subsection \<open>Events of a run\<close>

text \<open>The events a step added: the trace only ever grows at its end.\<close>

definition new_events :: "state \<Rightarrow> state \<Rightarrow> event list" where
  "new_events s s' = drop (length (trace s)) (trace s')"

definition is_wait :: "event \<Rightarrow> bool" where
  "is_wait ev = (case ev of Select r w x t \<Rightarrow> True | _ \<Rightarrow> False)"

text \<open>A readiness wait that has a connection in its write list.\<close>

definition waits_for_write :: "event \<Rightarrow> bool" where
  "waits_for_write ev = (case ev of Select r w x t \<Rightarrow> w \<noteq> [] | _ \<Rightarrow> False)"

text \<open>
  What the \<^verbatim>\<open>try\<close> block of the constructor may issue under timeout \<open>t\<close>: handshake
  attempts, waits for the TLS connection alone to become readable, each with \<open>t\<close>, and the
  error print of \<^verbatim>\<open>get_ssl_context\<close>.
\<close>

definition handshake_event :: "nat \<Rightarrow> event \<Rightarrow> bool" where
  "handshake_event t ev =
     (case ev of
        DoHandshake \<Rightarrow> True
      | Select r w x t' \<Rightarrow> (case r of [SslConn i] \<Rightarrow> w = [] \<and> x = [] \<and> t' = t | _ \<Rightarrow> False)
      | PrintCtxError e \<Rightarrow> True
      | _ \<Rightarrow> False)"

subsection \<open>The handshake loop seen from the environment\<close>

text \<open>The \<open>k\<close>-th wait finds the socket readable within \<open>t\<close>; and how long it takes.\<close>

definition ready :: "conn_env \<Rightarrow> nat \<Rightarrow> nat \<Rightarrow> bool" where
  "ready ce k t = (case readable_after ce k of Some d \<Rightarrow> d \<le> t | None \<Rightarrow> False)"

definition wait_duration :: "conn_env \<Rightarrow> nat \<Rightarrow> nat \<Rightarrow> nat" where
  "wait_duration ce k t = (case readable_after ce k of Some d \<Rightarrow> min d t | None \<Rightarrow> t)"

text \<open>
  Attempts \<open>k\<close> to \<open>k + m - 1\<close> each signalled \<^verbatim>\<open>WantReadError\<close> and the socket became
  readable in time, so that the loop went round \<open>m\<close> times; and the time those \<open>m\<close>
  waits took.
\<close>

primrec retried :: "conn_env \<Rightarrow> nat \<Rightarrow> nat \<Rightarrow> nat \<Rightarrow> bool" where
  "retried ce t k 0 = True"
| "retried ce t k (Suc m) =
     (do_handshake ce k = Some WantReadError \<and> ready ce k t \<and> retried ce t (Suc k) m)"

primrec total_wait :: "conn_env \<Rightarrow> nat \<Rightarrow> nat \<Rightarrow> nat \<Rightarrow> nat" where
  "total_wait ce t k 0 = 0"
| "total_wait ce t k (Suc m) = wait_duration ce k t + total_wait ce t (Suc k) m"

definition timeout_error :: exn where
  "timeout_error = TimeoutError ''Timeout during TLS handshake while waiting for client.''"

text \<open>
  The attempt that ends the loop, by what the library signalled (\<open>sig\<close>): the events it
  adds and how the loop is left. A \<^verbatim>\<open>WantReadError\<close> ends the loop only when its wait
  runs out.
\<close>

definition final_events :: "conn \<Rightarrow> nat \<Rightarrow> exn option \<Rightarrow> event list" where
  "final_events c t sig =
     (if sig = Some WantReadError then [DoHandshake, Select [c] [] [] t] else [DoHandshake])"

definition final_result :: "exn option \<Rightarrow> exn + unit" where
  "final_result sig =
     (case sig of None \<Rightarrow> Inr () | Some e \<Rightarrow> if e = WantReadError then Inl timeout_error else Inl e)"

subsection \<open>The context\<close>

text \<open>All bits of the flag \<open>f\<close> are set in the option mask.\<close>

definition flag_set :: "int \<Rightarrow> int \<Rightarrow> bool" where
  "flag_set opts f = (opts AND f = f)"

datatype tls_version = SSLv2 | SSLv3 | TLSv1 | TLSv1_1 | TLSv1_2 | TLSv1_3

text \<open>
  With \<^verbatim>\<open>SSLv23_METHOD\<close> a context negotiates any protocol version whose \<^verbatim>\<open>OP_NO_\<close> flag
  is not set in its options. The program names the flags of the four versions below
  TLS 1.2 only.
\<close>

definition disabling_flag :: "ssl_lib \<Rightarrow> tls_version \<Rightarrow> int option" where
  "disabling_flag lib v =
     (case v of
        SSLv2 \<Rightarrow> Some (OP_NO_SSLv2 lib)
      | SSLv3 \<Rightarrow> Some (OP_NO_SSLv3 lib)
      | TLSv1 \<Rightarrow> Some (OP_NO_TLSv1 lib)
      | TLSv1_1 \<Rightarrow> Some (OP_NO_TLSv1_1 lib)
      | TLSv1_2 \<Rightarrow> None
      | TLSv1_3 \<Rightarrow> None)"

definition negotiable :: "ssl_lib \<Rightarrow> Context \<Rightarrow> tls_version \<Rightarrow> bool" where
  "negotiable lib c v =
     (case disabling_flag lib v of None \<Rightarrow> True | Some f \<Rightarrow> \<not> flag_set (ctx_options c) f)"

text \<open>The exception of the first loading step that raises, in the order of lines 88 to 90.\<close>

definition first_failing_step :: "ssl_lib \<Rightarrow> string option \<Rightarrow> string option \<Rightarrow> exn option" where
  "first_failing_step lib kf cf =
     (case use_privatekey_file lib kf of
        Some e \<Rightarrow> Some e
      | None \<Rightarrow>
          (case use_certificate_file lib cf of
             Some e \<Rightarrow> Some e
           | None \<Rightarrow> check_privatekey lib kf cf))"

text \<open>
  A series of calls of \<^verbatim>\<open>get_ssl_context\<close>, one per element of the list (the library, and
  with it the files on disk, may differ from call to call), with the value each returned.
\<close>

primrec get_ssl_context_calls :: "ssl_lib list \<Rightarrow> state \<Rightarrow> Context option list \<times> state" where
  "get_ssl_context_calls [] s = ([], s)"
| "get_ssl_context_calls (lib # libs) s =
     (case get_ssl_context lib s of
        (r, s1) \<Rightarrow> (case get_ssl_context_calls libs s1 of (rs, s2) \<Rightarrow> (r # rs, s2)))"

subsection \<open>Accounts and ceilings\<close>

text \<open>The account table that holds the anonymous entry if it is enabled, and nothing else.\<close>

definition anonymous_only :: "args \<Rightarrow> (string \<rightharpoonup> user_entry)" where
  "anonymous_only a =
     (if allow_anonymous a
      then [''anonymous'' \<mapsto> \<lparr>pwd = [], home = drive a, perm = ''elradfmw''\<rparr>]
      else Map.empty)"

text \<open>
  The startup configuration in the words of the specification, section 6: the arguments
  together with a global and a per-address connection ceiling. The program's argument
  parser has no option for either ceiling, so \<^verbatim>\<open>main\<close> sees the arguments only.
\<close>

record startup_configuration =
  cfg_args :: args
  cfg_max_cons :: nat
  cfg_max_cons_per_ip :: nat

text \<open>
  The specification's reading of the ceilings: the server that \<^verbatim>\<open>main\<close> sets up has the
  two values the configuration supplies.
\<close>

definition enforces_configured_ceilings :: "os_env \<Rightarrow> ssl_lib \<Rightarrow> startup_configuration \<Rightarrow> state \<Rightarrow> bool" where
  "enforces_configured_ceilings os lib cfg s =
     (case the_server (snd (main os lib (cfg_args cfg) s)) of
        None \<Rightarrow> False
      | Some srv \<Rightarrow> max_cons srv = cfg_max_cons cfg \<and> max_cons_per_ip srv = cfg_max_cons_per_ip cfg)"

section \<open>Concrete runs\<close>

text \<open>
  Loading a file: a path that is \<^verbatim>\<open>None\<close> is a type error, a file that is not there an
  error of the TLS library, with the same text for a key as for a certificate.
\<close>

definition load_file :: "bool \<Rightarrow> string option \<Rightarrow> exn option" where
  "load_file present f =
     (case f of
        None \<Rightarrow> Some (TypeError ''path must be a string'')
      | Some p \<Rightarrow> if present then None else Some (SSL_Error ''No such file or directory''))"

text \<open>
  A library that finds both files and finds them consistent, with the option constants of
  OpenSSL 1.0; one that finds no key file; and one that finds no certificate file.
\<close>

definition lib_ok :: ssl_lib where
  "lib_ok = \<lparr>OP_NO_SSLv2 = 16777216, OP_NO_SSLv3 = 33554432, OP_NO_TLSv1 = 67108864,
     OP_NO_TLSv1_1 = 268435456, default_options = 0,
     use_privatekey_file = load_file True, use_certificate_file = load_file True,
     check_privatekey = (\<lambda>k c. None)\<rparr>"

definition lib_no_key :: ssl_lib where
  "lib_no_key = lib_ok\<lparr>use_privatekey_file := load_file False\<rparr>"

definition lib_no_cert :: ssl_lib where
  "lib_no_cert = lib_ok\<lparr>use_certificate_file := load_file False\<rparr>"

text \<open>The process before \<^verbatim>\<open>main\<close>: the handler class as pyftpdlib ships it.\<close>

definition fresh :: state where
  "fresh = \<lparr>implicit_tls = False, tls_control_required = False, tls_data_required = False,
     cls_certfile = None, cls_keyfile = None, cls_timeout = 300, ssl_context = None,
     authorizer = Map.empty, banner = [], lan_ip = None, the_server = None,
     next_id = 0, clock = 0, trace = []\<rparr>"

definition os_ok :: os_env where
  "os_ok = \<lparr>isdir = (\<lambda>d. True), get_lan_ip = ''192.168.1.2'', bind_listen = (\<lambda>a. None)\<rparr>"

text \<open>
  \<^verbatim>\<open>--drive /srv --ftps-mode implicit --certfile c.pem --keyfile k.pem\<close>, the same without
  \<^verbatim>\<open>--ftps-mode\<close>, the same without the two files, and
  \<^verbatim>\<open>--drive /srv --user alice --allow-anonymous\<close>.
\<close>

definition args_implicit :: args where
  "args_implicit = \<lparr>drive = ''/srv'', host = ''0.0.0.0'', port = 21, user = None, password = None,
     allow_anonymous = False, ftps_mode = Some implicit,
     certfile = Some ''c.pem'', keyfile = Some ''k.pem''\<rparr>"

definition args_certs_only :: args where
  "args_certs_only = args_implicit\<lparr>ftps_mode := None\<rparr>"

definition args_mode_only :: args where
  "args_mode_only = args_implicit\<lparr>certfile := None, keyfile := None\<rparr>"

definition args_user_only :: args where
  "args_user_only = \<lparr>drive = ''/srv'', host = ''0.0.0.0'', port = 21, user = Some ''alice'',
     password = None, allow_anonymous = True, ftps_mode = None, certfile = None, keyfile = None\<rparr>"

text \<open>A configuration that asks for the ceilings 10 and 2.\<close>

definition cfg_ten_two :: startup_configuration where
  "cfg_ten_two = \<lparr>cfg_args = args_user_only, cfg_max_cons = 10, cfg_max_cons_per_ip = 2\<rparr>"

text \<open>The implicit-TLS server as it runs: the state \<^verbatim>\<open>main\<close> leaves behind.\<close>

definition serving_implicit :: state where
  "serving_implicit = snd (main os_ok lib_ok args_implicit fresh)"

text \<open>The handler class once \<^verbatim>\<open>main\<close> has set its TLS attributes, before any context is built.\<close>

definition configured_implicit :: state where
  "configured_implicit = configure_tls args_implicit fresh"

text \<open>The context object with identity \<open>i\<close> that the accessor builds from the two files.\<close>

definition built_ctx :: "nat \<Rightarrow> Context" where
  "built_ctx i = \<lparr>ctx_id = i, ctx_method = SSLv23_METHOD, ctx_options = 385875968,
     ctx_privatekey = Some ''k.pem'', ctx_certificate = Some ''c.pem''\<rparr>"

text \<open>
  Five peers. The first needs two round trips, each arriving 200 seconds into the wait;
  the second makes the library ask for write-readiness at once, the third after one round
  trip; the fourth sends a hello the library rejects; the fifth connects and stays silent.
\<close>

definition peer_slow :: conn_env where
  "peer_slow = \<lparr>getpeername = None, new_connection = None,
     do_handshake = (\<lambda>k. if k < 2 then Some WantReadError else None),
     readable_after = (\<lambda>k. Some 200), super_init = None, connected = True\<rparr>"

definition peer_want_write :: conn_env where
  "peer_want_write = peer_slow\<lparr>do_handshake := (\<lambda>k. Some WantWriteError)\<rparr>"

definition peer_write_after_read :: conn_env where
  "peer_write_after_read = peer_slow\<lparr>do_handshake :=
     (\<lambda>k. if k = 0 then Some WantReadError else Some WantWriteError)\<rparr>"

definition peer_bad_hello :: conn_env where
  "peer_bad_hello = peer_slow\<lparr>do_handshake :=
     (\<lambda>k. if k = 0 then Some WantReadError else Some (SSL_Error ''wrong version number''))\<rparr>"

definition peer_silent :: conn_env where
  "peer_silent = peer_slow\<lparr>do_handshake := (\<lambda>k. Some WantReadError), readable_after := (\<lambda>k. None)\<rparr>"

section \<open>Facts about the model\<close>

subsection \<open>Events\<close>

lemma new_events_append: "trace s' = trace s @ evs \<Longrightarrow> new_events s s' = evs"
  by (simp add: new_events_def)

lemma is_wait_simps [simp]:
  "is_wait (Select r w x t)" "\<not> is_wait DoHandshake" "\<not> is_wait (Close c)" "\<not> is_wait (SuperInit c)"
  "\<not> is_wait (PrintCtxError e)" "\<not> is_wait (PrintHandshakeFailed e)"
  by (simp_all add: is_wait_def)

lemma handshake_event_simps [simp]:
  "handshake_event t DoHandshake" "handshake_event t (PrintCtxError e)"
  "handshake_event t (Select [SslConn i] [] [] t)"
  "\<not> handshake_event t (SuperInit c)" "\<not> handshake_event t (Close c)"
  "\<not> handshake_event t (PrintHandshakeFailed e)"
  by (simp_all add: handshake_event_def)

lemma handshake_event_wait:
  assumes "is_wait ev" and "handshake_event t ev"
  shows "\<exists>i. ev = Select [SslConn i] [] [] t"
  using assms
  by (auto simp: is_wait_def handshake_event_def split: event.splits list.splits conn.splits)

subsection \<open>The context accessor\<close>

lemma flag_set_mask:
  "flag_set (d OR (a OR b OR c OR e)) a" "flag_set (d OR (a OR b OR c OR e)) b"
  "flag_set (d OR (a OR b OR c OR e)) c" "flag_set (d OR (a OR b OR c OR e)) e"
  by (auto simp add: flag_set_def bit_eq_iff bit_and_iff bit_or_iff)

lemma build_context_fields:
  assumes "build_context lib i kf cf = Inr c"
  shows "ctx_options c = default_options lib OR
           (OP_NO_SSLv2 lib OR OP_NO_SSLv3 lib OR OP_NO_TLSv1 lib OR OP_NO_TLSv1_1 lib)"
    and "ctx_id c = i" and "ctx_method c = SSLv23_METHOD"
    and "ctx_privatekey c = kf" and "ctx_certificate c = cf"
  using assms by (auto simp: build_context_def Let_def split: option.splits)

lemma build_context_Inl:
  "build_context lib i kf cf = Inl e \<longleftrightarrow> first_failing_step lib kf cf = Some e"
  by (auto simp: build_context_def first_failing_step_def Let_def split: option.splits)

lemma get_ssl_context_built:
  assumes "ssl_context s = None" and "get_ssl_context lib s = (Some c, s')"
  shows "build_context lib (next_id s) (cls_keyfile s) (cls_certfile s) = Inr c"
    and "s' = s\<lparr>next_id := Suc (next_id s), ssl_context := Some c\<rparr>"
  using assms by (auto simp: get_ssl_context_def Let_def emit_def split: sum.splits)

lemma get_ssl_context_failure:
  assumes "ssl_context s = None"
    and "build_context lib (next_id s) (cls_keyfile s) (cls_certfile s) = Inl e"
  shows "get_ssl_context lib s = (None, emit [PrintCtxError e] (s\<lparr>next_id := Suc (next_id s)\<rparr>))"
  using assms by (simp add: get_ssl_context_def Let_def)

lemma get_ssl_context_cached:
  "ssl_context s = Some c \<Longrightarrow> get_ssl_context lib s = (Some c, s)"
  by (simp add: get_ssl_context_def)

lemma get_ssl_context_Some_cached:
  "get_ssl_context lib s = (Some c, s') \<Longrightarrow> ssl_context s' = Some c"
  by (auto simp: get_ssl_context_def Let_def emit_def split: option.splits sum.splits)

lemma get_ssl_context_frame:
  assumes "get_ssl_context lib s = (r, s')"
  shows "implicit_tls s' = implicit_tls s" and "tls_control_required s' = tls_control_required s"
    and "tls_data_required s' = tls_data_required s" and "authorizer s' = authorizer s"
    and "the_server s' = the_server s" and "clock s' = clock s" and "cls_timeout s' = cls_timeout s"
    and "cls_keyfile s' = cls_keyfile s" and "cls_certfile s' = cls_certfile s"
  using assms by (auto simp: get_ssl_context_def Let_def emit_def split: option.splits sum.splits)

lemma get_ssl_context_events:
  assumes "get_ssl_context lib s = (r, s1)"
  shows "\<exists>evs. trace s1 = trace s @ evs \<and> (\<forall>ev\<in>set evs. \<exists>e. ev = PrintCtxError e) \<and>
           (r \<noteq> None \<longrightarrow> evs = [])"
  using assms by (cases "ssl_context s")
    (auto simp: get_ssl_context_def Let_def emit_def split: sum.splits)

lemma calls_cached:
  "ssl_context s = Some c \<Longrightarrow> get_ssl_context_calls libs s = (replicate (length libs) (Some c), s)"
  by (induction libs) (simp_all add: get_ssl_context_cached)

lemma calls_append:
  "get_ssl_context_calls (xs @ ys) s =
     (case get_ssl_context_calls xs s of
        (rs, s1) \<Rightarrow> (case get_ssl_context_calls ys s1 of (rs', s2) \<Rightarrow> (rs @ rs', s2)))"
  by (induction xs arbitrary: s) (simp_all split: prod.splits)

subsection \<open>The handshake loop\<close>

lemma select_readable_eq:
  "select_readable ce k c t s =
     (ready ce k t, s\<lparr>clock := clock s + wait_duration ce k t, trace := trace s @ [Select [c] [] [] t]\<rparr>)"
  by (auto simp: select_readable_def ready_def wait_duration_def emit_def Let_def min_def
      split: option.splits)

lemma wait_duration_le: "wait_duration ce k t \<le> t"
  by (simp add: wait_duration_def split: option.splits)

lemma wait_duration_not_ready: "\<not> ready ce k t \<Longrightarrow> wait_duration ce k t = t"
  by (auto simp: wait_duration_def ready_def min_def split: option.splits)

lemma total_wait_le: "total_wait ce t k m \<le> m * t"
proof (induction m arbitrary: k)
  case 0
  show ?case by simp
next
  case (Suc m)
  have "wait_duration ce k t + total_wait ce t (Suc k) m \<le> t + m * t"
    using wait_duration_le [of ce k t] Suc.IH [of "Suc k"] by (rule add_mono)
  then show ?case by simp
qed

text \<open>One turn of the loop that goes round, and the turn that leaves it.\<close>

lemma handshake_loop_retry:
  assumes "do_handshake ce k = Some WantReadError" and "ready ce k t"
  shows "handshake_loop (Suc fuel) ce c t k s =
           handshake_loop fuel ce c t (Suc k)
             (s\<lparr>clock := clock s + wait_duration ce k t,
                trace := trace s @ [DoHandshake, Select [c] [] [] t]\<rparr>)"
  using assms by (simp add: Let_def emit_def select_readable_eq)

lemma handshake_loop_final:
  assumes "do_handshake ce k = Some WantReadError \<longrightarrow> \<not> ready ce k t"
  shows "handshake_loop (Suc fuel) ce c t k s =
           Some (final_result (do_handshake ce k),
                 s\<lparr>clock := clock s + (if do_handshake ce k = Some WantReadError then t else 0),
                    trace := trace s @ final_events c t (do_handshake ce k)\<rparr>)"
  using assms
  by (auto simp: Let_def emit_def select_readable_eq final_result_def final_events_def
      timeout_error_def wait_duration_not_ready split: option.splits)

text \<open>
  Every run of the loop that ends went round some \<open>m\<close> times on \<^verbatim>\<open>WantReadError\<close> and
  was ended by attempt \<open>k + m\<close>; it changed the clock and the trace, and nothing else.
\<close>

lemma handshake_loop_run:
  assumes "handshake_loop fuel ce c t k s = Some (r, s')"
  shows "\<exists>m. retried ce t k m \<and>
           (do_handshake ce (k + m) = Some WantReadError \<longrightarrow> \<not> ready ce (k + m) t) \<and>
           r = final_result (do_handshake ce (k + m)) \<and>
           trace s' = trace s @ concat (replicate m [DoHandshake, Select [c] [] [] t]) @
                        final_events c t (do_handshake ce (k + m)) \<and>
           clock s' = clock s + total_wait ce t k m +
                        (if do_handshake ce (k + m) = Some WantReadError then t else 0) \<and>
           s'\<lparr>trace := trace s, clock := clock s\<rparr> = s"
  using assms
proof (induction fuel arbitrary: k s)
  case 0
  then show ?case by simp
next
  case (Suc fuel)
  show ?case
  proof (cases "do_handshake ce k = Some WantReadError \<and> ready ce k t")
    case False
    then have "do_handshake ce k = Some WantReadError \<longrightarrow> \<not> ready ce k t" by simp
    from handshake_loop_final [OF this, of fuel c s] Suc.prems
    have "retried ce t k 0 \<and>
           (do_handshake ce (k + 0) = Some WantReadError \<longrightarrow> \<not> ready ce (k + 0) t) \<and>
           r = final_result (do_handshake ce (k + 0)) \<and>
           trace s' = trace s @ concat (replicate 0 [DoHandshake, Select [c] [] [] t]) @
                        final_events c t (do_handshake ce (k + 0)) \<and>
           clock s' = clock s + total_wait ce t k 0 +
                        (if do_handshake ce (k + 0) = Some WantReadError then t else 0) \<and>
           s'\<lparr>trace := trace s, clock := clock s\<rparr> = s"
      using False by (auto simp del: handshake_loop.simps)
    then show ?thesis by blast
  next
    case True
    let ?s2 = "s\<lparr>clock := clock s + wait_duration ce k t,
                 trace := trace s @ [DoHandshake, Select [c] [] [] t]\<rparr>"
    have "handshake_loop fuel ce c t (Suc k) ?s2 = Some (r, s')"
      using Suc.prems True handshake_loop_retry [of ce k t fuel c s] by simp
    from Suc.IH [OF this] obtain m where m: "retried ce t (Suc k) m"
      "do_handshake ce (Suc k + m) = Some WantReadError \<longrightarrow> \<not> ready ce (Suc k + m) t"
      "r = final_result (do_handshake ce (Suc k + m))"
      "trace s' = trace ?s2 @ concat (replicate m [DoHandshake, Select [c] [] [] t]) @
                        final_events c t (do_handshake ce (Suc k + m))"
      "clock s' = clock ?s2 + total_wait ce t (Suc k) m +
                        (if do_handshake ce (Suc k + m) = Some WantReadError then t else 0)"
      "s'\<lparr>trace := trace ?s2, clock := clock ?s2\<rparr> = ?s2"
      by blast
    have fr: "s'\<lparr>trace := trace s, clock := clock s\<rparr> = s"
    proof -
      have "(s'\<lparr>trace := trace ?s2, clock := clock ?s2\<rparr>)\<lparr>trace := trace s, clock := clock s\<rparr> =
            ?s2\<lparr>trace := trace s, clock := clock s\<rparr>"
        using m(6) by simp
      then show ?thesis by simp
    qed
    have "retried ce t k (Suc m) \<and>
           (do_handshake ce (k + Suc m) = Some WantReadError \<longrightarrow> \<not> ready ce (k + Suc m) t) \<and>
           r = final_result (do_handshake ce (k + Suc m)) \<and>
           trace s' = trace s @ concat (replicate (Suc m) [DoHandshake, Select [c] [] [] t]) @
                        final_events c t (do_handshake ce (k + Suc m)) \<and>
           clock s' = clock s + total_wait ce t k (Suc m) +
                        (if do_handshake ce (k + Suc m) = Some WantReadError then t else 0) \<and>
           s'\<lparr>trace := trace s, clock := clock s\<rparr> = s"
      using True m(1-5) fr by simp
    then show ?thesis by blast
  qed
qed

text \<open>
  Conversely, such an environment makes the loop end, given fuel for its \<open>m + 1\<close> attempts,
  and fixes what it returns.
\<close>

lemma handshake_loop_total:
  assumes "retried ce t k m"
    and "do_handshake ce (k + m) = Some WantReadError \<longrightarrow> \<not> ready ce (k + m) t"
  shows "handshake_loop (Suc (m + fuel)) ce c t k s =
           Some (final_result (do_handshake ce (k + m)),
                 s\<lparr>clock := clock s + total_wait ce t k m +
                               (if do_handshake ce (k + m) = Some WantReadError then t else 0),
                    trace := trace s @ concat (replicate m [DoHandshake, Select [c] [] [] t]) @
                               final_events c t (do_handshake ce (k + m))\<rparr>)"
  using assms
proof (induction m arbitrary: k s)
  case 0
  then show ?case by (simp add: handshake_loop_final del: handshake_loop.simps)
next
  case (Suc m)
  let ?s2 = "s\<lparr>clock := clock s + wait_duration ce k t,
               trace := trace s @ [DoHandshake, Select [c] [] [] t]\<rparr>"
  have r: "retried ce t (Suc k) m" and w: "do_handshake ce k = Some WantReadError" "ready ce k t"
    using Suc.prems(1) by simp_all
  have f: "do_handshake ce (Suc k + m) = Some WantReadError \<longrightarrow> \<not> ready ce (Suc k + m) t"
    using Suc.prems(2) by simp
  have "handshake_loop (Suc (Suc (m + fuel))) ce c t k s =
          handshake_loop (Suc (m + fuel)) ce c t (Suc k) ?s2"
    by (rule handshake_loop_retry [OF w])
  also have "\<dots> = Some (final_result (do_handshake ce (Suc k + m)),
                 ?s2\<lparr>clock := clock ?s2 + total_wait ce t (Suc k) m +
                               (if do_handshake ce (Suc k + m) = Some WantReadError then t else 0),
                    trace := trace ?s2 @ concat (replicate m [DoHandshake, Select [c] [] [] t]) @
                               final_events c t (do_handshake ce (Suc k + m))\<rparr>)"
    by (rule Suc.IH [OF r f])
  finally show ?case by (simp del: handshake_loop.simps)
qed

lemma filter_wait_rounds:
  "filter is_wait (concat (replicate m [DoHandshake, Select [c] [] [] t])) = replicate m (Select [c] [] [] t)"
  by (induction m) simp_all

lemma set_rounds:
  "ev \<in> set (concat (replicate m [DoHandshake, Select [c] [] [] t])) \<Longrightarrow>
     ev = DoHandshake \<or> ev = Select [c] [] [] t"
  by (induction m) auto

lemma set_final_events:
  "ev \<in> set (final_events c t sig) \<Longrightarrow> ev = DoHandshake \<or> ev = Select [c] [] [] t"
  by (auto simp: final_events_def split: if_splits)

lemma filter_wait_final:
  "length (filter is_wait (final_events c t sig)) = (if sig = Some WantReadError then 1 else 0)"
  by (simp add: final_events_def)

lemma handshake_loop_waits:
  assumes "handshake_loop fuel ce c t k s = Some (r, s')"
  shows "\<exists>evs. trace s' = trace s @ evs \<and>
           (\<forall>ev\<in>set evs. ev = DoHandshake \<or> ev = Select [c] [] [] t) \<and>
           clock s' \<le> clock s + length (filter is_wait evs) * t \<and>
           s'\<lparr>trace := trace s, clock := clock s\<rparr> = s"
proof -
  from handshake_loop_run [OF assms] obtain m where
    tr: "trace s' = trace s @ concat (replicate m [DoHandshake, Select [c] [] [] t]) @
                        final_events c t (do_handshake ce (k + m))"
    and cl: "clock s' = clock s + total_wait ce t k m +
                        (if do_handshake ce (k + m) = Some WantReadError then t else 0)"
    and fr: "s'\<lparr>trace := trace s, clock := clock s\<rparr> = s"
    by blast
  let ?evs = "concat (replicate m [DoHandshake, Select [c] [] [] t]) @
                final_events c t (do_handshake ce (k + m))"
  have a: "\<forall>ev\<in>set ?evs. ev = DoHandshake \<or> ev = Select [c] [] [] t"
    using set_rounds set_final_events by fastforce
  have n: "length (filter is_wait ?evs) =
             m + (if do_handshake ce (k + m) = Some WantReadError then 1 else 0)"
    by (simp add: filter_wait_rounds filter_wait_final)
  have "clock s' \<le> clock s + m * t + (if do_handshake ce (k + m) = Some WantReadError then t else 0)"
    using cl total_wait_le [of ce t k m] by simp
  also have "\<dots> = clock s + length (filter is_wait ?evs) * t"
    unfolding n by (simp add: algebra_simps)
  finally have "clock s' \<le> clock s + length (filter is_wait ?evs) * t" .
  with tr a fr show ?thesis by blast
qed

subsection \<open>The constructor\<close>

lemma manual_handshake_run:
  assumes "manual_handshake fuel lib ce s = Some (r, s1)"
  shows "\<exists>evs. trace s1 = trace s @ evs \<and> (\<forall>ev\<in>set evs. handshake_event (cls_timeout s) ev) \<and>
           clock s1 \<le> clock s + length (filter is_wait evs) * cls_timeout s"
proof -
  obtain r0 s0 where g: "get_ssl_context lib s = (r0, s0)" by (cases "get_ssl_context lib s")
  from get_ssl_context_events [OF g] obtain evs0 where
    e0: "trace s0 = trace s @ evs0" "\<forall>ev\<in>set evs0. \<exists>e. ev = PrintCtxError e" by blast
  have f0: "clock s0 = clock s" "cls_timeout s0 = cls_timeout s"
    using get_ssl_context_frame(6,7) [OF g] by simp_all
  have w0: "filter is_wait evs0 = []"
    using e0(2) by (auto simp: filter_empty_conv)
  have h0: "\<forall>ev\<in>set evs0. handshake_event (cls_timeout s) ev"
    using e0(2) by auto
  show ?thesis
  proof (cases r0)
    case None
    with assms g have "s1 = s0" by (simp add: manual_handshake_def)
    with e0 f0 h0 show ?thesis by auto
  next
    case (Some ctx)
    show ?thesis
    proof (cases "new_connection ce")
      case (Some e)
      with assms g \<open>r0 = Some ctx\<close> have "s1 = s0" by (simp add: manual_handshake_def)
      with e0 f0 h0 show ?thesis by auto
    next
      case None
      obtain r2 where l: "handshake_loop fuel ce (SslConn (ctx_id ctx)) (cls_timeout s) 0 s0 = Some (r2, s1)"
        using assms g \<open>r0 = Some ctx\<close> None f0
        by (auto simp: manual_handshake_def Let_def split: option.splits sum.splits)
      from handshake_loop_waits [OF l] obtain evs where
        e: "trace s1 = trace s0 @ evs"
        "\<forall>ev\<in>set evs. ev = DoHandshake \<or> ev = Select [SslConn (ctx_id ctx)] [] [] (cls_timeout s)"
        "clock s1 \<le> clock s0 + length (filter is_wait evs) * cls_timeout s"
        by blast
      have "trace s1 = trace s @ (evs0 @ evs)" using e0 e by simp
      moreover have "\<forall>ev\<in>set (evs0 @ evs). handshake_event (cls_timeout s) ev"
        using h0 e(2) by auto
      moreover have "clock s1 \<le> clock s + length (filter is_wait (evs0 @ evs)) * cls_timeout s"
        using e(3) f0 w0 by simp
      ultimately show ?thesis by blast
    qed
  qed
qed

lemma call_super_init_run:
  assumes "call_super_init lib ce c s = (r, s')"
  shows "\<exists>tl. trace s' = trace s @ tl \<and> filter is_wait tl = [] \<and> clock s' = clock s"
proof -
  let ?s1 = "emit [SuperInit c] s"
  obtain r2 s2 where g: "get_ssl_context lib ?s1 = (r2, s2)" by (cases "get_ssl_context lib ?s1")
  from get_ssl_context_events [OF g] obtain evs where
    e: "trace s2 = trace ?s1 @ evs" "\<forall>ev\<in>set evs. \<exists>e. ev = PrintCtxError e" by blast
  have w: "filter is_wait evs = []"
    using e(2) by (auto simp: filter_empty_conv)
  have k: "clock s2 = clock s"
    using get_ssl_context_frame(6) [OF g] by (simp add: emit_def)
  have "s' = ?s1 \<or> s' = s2"
    using assms g by (auto simp: call_super_init_def Let_def split: option.splits if_splits)
  then show ?thesis
  proof
    assume "s' = ?s1"
    then have "trace s' = trace s @ [SuperInit c] \<and> filter is_wait [SuperInit c] = [] \<and> clock s' = clock s"
      by (simp add: emit_def)
    then show ?thesis by blast
  next
    assume "s' = s2"
    then have "trace s' = trace s @ (SuperInit c # evs) \<and> filter is_wait (SuperInit c # evs) = [] \<and>
               clock s' = clock s"
      using e(1) w k by (simp add: emit_def)
    then show ?thesis by blast
  qed
qed

lemma call_super_init_keeps_context:
  assumes "ssl_context s = Some x" and "call_super_init lib ce c s = (r, s')"
  shows "ssl_context s' = Some x"
  using assms
  by (auto simp: call_super_init_def get_ssl_context_def Let_def emit_def split: option.splits if_splits)

lemma handler_init_run:
  assumes "handler_init fuel lib ce s = Some (r, s')"
  shows "\<exists>evs. trace s' = trace s @ evs \<and>
           (\<forall>ev\<in>set evs. is_wait ev \<longrightarrow> handshake_event (cls_timeout s) ev) \<and>
           clock s' \<le> clock s + length (filter is_wait evs) * cls_timeout s"
proof (cases "getpeername ce = None \<and> implicit_tls s")
  case False
  then have "s' = s \<or> call_super_init lib ce RawConn s = (r, s')"
    using assms by (auto simp: handler_init_def split: option.splits if_splits)
  then have "\<exists>tl. trace s' = trace s @ tl \<and> filter is_wait tl = [] \<and> clock s' = clock s"
    using call_super_init_run by fastforce
  then obtain tl where "trace s' = trace s @ tl" "filter is_wait tl = []" "clock s' = clock s"
    by blast
  then have "trace s' = trace s @ tl \<and>
      (\<forall>ev\<in>set tl. is_wait ev \<longrightarrow> handshake_event (cls_timeout s) ev) \<and>
      clock s' \<le> clock s + length (filter is_wait tl) * cls_timeout s"
    by (auto simp: filter_empty_conv)
  then show ?thesis by blast
next
  case True
  then obtain r1 s1 where mh: "manual_handshake fuel lib ce s = Some (r1, s1)"
    using assms by (auto simp: handler_init_def split: option.splits)
  from manual_handshake_run [OF mh] obtain evs where
    e: "trace s1 = trace s @ evs" "\<forall>ev\<in>set evs. handshake_event (cls_timeout s) ev"
    "clock s1 \<le> clock s + length (filter is_wait evs) * cls_timeout s"
    by blast
  have "\<exists>tl. trace s' = trace s1 @ tl \<and> filter is_wait tl = [] \<and> clock s' = clock s1"
  proof (cases r1)
    case (Inl e)
    then have "s' = emit [PrintHandshakeFailed e, Close RawConn] s1"
      using assms True mh by (simp add: handler_init_def)
    then have "trace s' = trace s1 @ [PrintHandshakeFailed e, Close RawConn] \<and>
        filter is_wait [PrintHandshakeFailed e, Close RawConn] = [] \<and> clock s' = clock s1"
      by (simp add: emit_def)
    then show ?thesis by blast
  next
    case (Inr c)
    then have "call_super_init lib ce c s1 = (r, s')"
      using assms True mh by (simp add: handler_init_def)
    then show ?thesis by (rule call_super_init_run)
  qed
  then obtain tl where t: "trace s' = trace s1 @ tl" "filter is_wait tl = []" "clock s' = clock s1"
    by blast
  have "trace s' = trace s @ (evs @ tl)" using e(1) t(1) by simp
  moreover have "\<forall>ev\<in>set (evs @ tl). is_wait ev \<longrightarrow> handshake_event (cls_timeout s) ev"
    using e(2) t(2) by (auto simp: filter_empty_conv)
  moreover have "clock s' \<le> clock s + length (filter is_wait (evs @ tl)) * cls_timeout s"
    using e(3) t(2,3) by simp
  ultimately show ?thesis by blast
qed

text \<open>Once the attribute is set, no constructor run changes it.\<close>

lemma manual_handshake_keeps_context:
  assumes "ssl_context s = Some c" and "manual_handshake fuel lib ce s = Some (r, s1)"
  shows "ssl_context s1 = Some c"
proof (cases "new_connection ce")
  case (Some e)
  with assms show ?thesis
    by (simp add: manual_handshake_def get_ssl_context_cached)
next
  case None
  obtain r2 where l: "handshake_loop fuel ce (SslConn (ctx_id c)) (cls_timeout s) 0 s = Some (r2, s1)"
    using assms None
    by (auto simp: manual_handshake_def get_ssl_context_cached Let_def split: option.splits sum.splits)
  from handshake_loop_waits [OF l] have "s1\<lparr>trace := trace s, clock := clock s\<rparr> = s"
    by blast
  then have "ssl_context (s1\<lparr>trace := trace s, clock := clock s\<rparr>) = ssl_context s"
    by simp
  with assms(1) show ?thesis by simp
qed

lemma handler_init_keeps_context:
  assumes "ssl_context s = Some c" and "handler_init fuel lib ce s = Some (r, s')"
  shows "ssl_context s' = Some c"
proof (cases "getpeername ce = None \<and> implicit_tls s")
  case False
  then have "s' = s \<or> call_super_init lib ce RawConn s = (r, s')"
    using assms(2) by (auto simp: handler_init_def split: option.splits if_splits)
  with assms(1) call_super_init_keeps_context show ?thesis by blast
next
  case True
  then obtain r1 s1 where mh: "manual_handshake fuel lib ce s = Some (r1, s1)"
    using assms by (auto simp: handler_init_def split: option.splits)
  have k: "ssl_context s1 = Some c"
    using assms(1) mh by (rule manual_handshake_keeps_context)
  show ?thesis
  proof (cases r1)
    case (Inl e)
    then have "s' = emit [PrintHandshakeFailed e, Close RawConn] s1"
      using assms(2) True mh by (simp add: handler_init_def)
    with k show ?thesis by (simp add: emit_def)
  next
    case (Inr x)
    then have "call_super_init lib ce x s1 = (r, s')"
      using assms(2) True mh by (simp add: handler_init_def)
    with k show ?thesis by (rule call_super_init_keeps_context)
  qed
qed

subsection \<open>\<^verbatim>\<open>main\<close>\<close>

lemma configure_tls_frame:
  "trace (configure_tls a s) = trace s" "ssl_context (configure_tls a s) = ssl_context s"
  "next_id (configure_tls a s) = next_id s" "the_server (configure_tls a s) = the_server s"
  "authorizer (configure_tls a s) = authorizer s"
  by (simp_all add: configure_tls_def Let_def)

lemma configure_tls_certs:
  assumes "truthy (certfile a)" and "truthy (keyfile a)"
  shows "cls_certfile (configure_tls a s) = certfile a" and "cls_keyfile (configure_tls a s) = keyfile a"
    and "implicit_tls (configure_tls a s) = (ftps_mode a = Some implicit)"
    and "tls_control_required (configure_tls a s) = (ftps_mode a \<noteq> Some implicit)"
    and "tls_data_required (configure_tls a s) = (ftps_mode a \<noteq> Some implicit)"
  using assms by (simp_all add: configure_tls_def Let_def)

lemma build_authorizer_partial:
  assumes "\<not> (truthy (user a) \<and> truthy (password a))"
  shows "build_authorizer a = Inr (anonymous_only a)"
  using assms by (auto simp: build_authorizer_def anonymous_only_def add_anonymous_def add_user_def)

lemma main_past_drive_check:
  assumes "isdir os (drive a)" and "build_authorizer a = Inr t"
  shows "main os lib a s = start_server os lib (host a, port a)
           ((configure_tls a s)\<lparr>authorizer := t, banner := ''pyftpdlib based ftpd ready.'',
              lan_ip := Some (get_lan_ip os)\<rparr>)"
  using assms by (simp add: main_def Let_def)

lemma start_server_frame:
  assumes "start_server os lib addr s = (r, s')"
  shows "implicit_tls s' = implicit_tls s" and "tls_control_required s' = tls_control_required s"
    and "tls_data_required s' = tls_data_required s" and "authorizer s' = authorizer s"
proof -
  obtain r0 s0 where g0: "get_ssl_context lib s = (r0, s0)" by (cases "get_ssl_context lib s")
  have f0: "implicit_tls s0 = implicit_tls s" "tls_control_required s0 = tls_control_required s"
    "tls_data_required s0 = tls_data_required s" "authorizer s0 = authorizer s"
    by (rule get_ssl_context_frame [OF g0])+
  have "implicit_tls s' = implicit_tls s \<and> tls_control_required s' = tls_control_required s \<and>
        tls_data_required s' = tls_data_required s \<and> authorizer s' = authorizer s"
  proof (cases "bind_listen os addr")
    case (Some e)
    with assms g0 f0 show ?thesis by (simp add: start_server_def)
  next
    case None
    let ?s2 = "(emit [ServerCreated (fst addr) (snd addr)] s0)\<lparr>the_server :=
                 Some \<lparr>address = addr, max_cons = 256, max_cons_per_ip = 5\<rparr>\<rparr>"
    obtain r3 s3 where g: "get_ssl_context lib ?s2 = (r3, s3)" by (cases "get_ssl_context lib ?s2")
    have f: "implicit_tls s3 = implicit_tls s" "tls_control_required s3 = tls_control_required s"
      "tls_data_required s3 = tls_data_required s" "authorizer s3 = authorizer s"
      using get_ssl_context_frame(1,2,3,4) [OF g] f0 by (simp_all add: emit_def)
    show ?thesis
      using assms None g0 g f f0
      by (cases r3) (auto simp: start_server_def Let_def emit_def split: if_splits)
  qed
  then show "implicit_tls s' = implicit_tls s" and "tls_control_required s' = tls_control_required s"
    and "tls_data_required s' = tls_data_required s" and "authorizer s' = authorizer s"
    by simp_all
qed

lemma start_server_events:
  assumes "start_server os lib addr s = (r, s')"
  shows "\<exists>evs. trace s' = trace s @ evs \<and>
           (ServeForever \<in> set evs \<longrightarrow>
              the_server s' = Some \<lparr>address = addr, max_cons = 256, max_cons_per_ip = 5\<rparr>)"
proof -
  obtain r0 s0 where g0: "get_ssl_context lib s = (r0, s0)" by (cases "get_ssl_context lib s")
  from get_ssl_context_events [OF g0] obtain evs0 where
    e0: "trace s0 = trace s @ evs0" "\<forall>ev\<in>set evs0. \<exists>e. ev = PrintCtxError e" by blast
  have n0: "ServeForever \<notin> set evs0" using e0(2) by auto
  show ?thesis
  proof (cases "bind_listen os addr")
    case (Some e)
    with assms g0 have "s' = s0" by (simp add: start_server_def)
    with e0(1) n0 show ?thesis by blast
  next
    case None
    let ?s2 = "(emit [ServerCreated (fst addr) (snd addr)] s0)\<lparr>the_server :=
                 Some \<lparr>address = addr, max_cons = 256, max_cons_per_ip = 5\<rparr>\<rparr>"
    obtain r3 s3 where g: "get_ssl_context lib ?s2 = (r3, s3)" by (cases "get_ssl_context lib ?s2")
    have f: "the_server s3 = Some \<lparr>address = addr, max_cons = 256, max_cons_per_ip = 5\<rparr>"
      using get_ssl_context_frame(5) [OF g] by simp
    from get_ssl_context_events [OF g] obtain evs3 where
      e3: "trace s3 = trace ?s2 @ evs3" by blast
    have t3: "trace s3 = trace s @ (evs0 @ ServerCreated (fst addr) (snd addr) # evs3)"
      using e3 e0(1) by (simp add: emit_def)
    have "s' = emit [PrintMainCritical] s3 \<or> s' = emit [ServeForever] s3 \<or> s' = emit [ServeForever] ?s2"
      using assms None g0 g
      by (cases r3) (auto simp: start_server_def Let_def split: if_splits)
    then have "(\<exists>evs. trace s' = trace s @ evs) \<and>
               the_server s' = Some \<lparr>address = addr, max_cons = 256, max_cons_per_ip = 5\<rparr>"
      using t3 f e0(1) by (auto simp: emit_def)
    then show ?thesis by blast
  qed
qed

subsection \<open>The concrete runs\<close>

lemma serving_implicit_eq:
  "serving_implicit =
     \<lparr>implicit_tls = True, tls_control_required = False, tls_data_required = False,
      cls_certfile = Some ''c.pem'', cls_keyfile = Some ''k.pem'', cls_timeout = 300,
      ssl_context = Some \<lparr>ctx_id = 0, ctx_method = SSLv23_METHOD, ctx_options = 385875968,
                            ctx_privatekey = Some ''k.pem'', ctx_certificate = Some ''c.pem''\<rparr>,
      authorizer = Map.empty, banner = ''pyftpdlib based ftpd ready.'',
      lan_ip = Some ''192.168.1.2'',
      the_server = Some \<lparr>address = (''0.0.0.0'', 21), max_cons = 256, max_cons_per_ip = 5\<rparr>,
      next_id = Suc 0, clock = 0, trace = [ServerCreated ''0.0.0.0'' 21, ServeForever]\<rparr>"
  by (simp add: serving_implicit_def main_def start_server_def get_ssl_context_def build_context_def
      configure_tls_def build_authorizer_def truthy_def emit_def Let_def
      os_ok_def lib_ok_def load_file_def args_implicit_def fresh_def)

lemma configured_implicit_eq:
  "configured_implicit =
     \<lparr>implicit_tls = True, tls_control_required = False, tls_data_required = False,
      cls_certfile = Some ''c.pem'', cls_keyfile = Some ''k.pem'', cls_timeout = 300,
      ssl_context = None, authorizer = Map.empty, banner = [], lan_ip = None, the_server = None,
      next_id = 0, clock = 0, trace = []\<rparr>"
  by (simp add: configured_implicit_def configure_tls_def truthy_def Let_def args_implicit_def fresh_def)

section \<open>The handshake engine\<close>

text \<open>
  C1, as the specification states it, at a peer for which the first handshake attempt
  signals \<^verbatim>\<open>WantWriteError\<close>: the constructor issues no wait for write-readiness (no
  wait at all). The exception is not handled in the loop; it reaches the
  \<^verbatim>\<open>except Exception\<close> clause, the failure is printed and the raw connection closed.
\<close>

theorem want_write_is_not_waited_for:
  "do_handshake peer_want_write 0 = Some WantWriteError \<and>
   map_option (\<lambda>(r, s'). (r, new_events serving_implicit s'))
     (handler_init (Suc 0) lib_ok peer_want_write serving_implicit) =
     Some (Inr (), [DoHandshake, PrintHandshakeFailed WantWriteError, Close RawConn]) \<and>
   \<not> list_ex waits_for_write [DoHandshake, PrintHandshakeFailed WantWriteError, Close RawConn]"
  by (simp add: handler_init_def manual_handshake_def get_ssl_context_def serving_implicit_eq
      peer_want_write_def peer_slow_def emit_def new_events_def waits_for_write_def Let_def)

text \<open>
  C1, amended: the loop waits in one direction only. Let the first \<open>m\<close> attempts signal
  \<^verbatim>\<open>WantReadError\<close> with the socket readable in time, and let attempt \<open>m\<close> be one that
  ends the loop. Then the loop does end, given fuel for \<open>m + 1\<close> attempts: each of the \<open>m\<close>
  attempts is followed by one wait for the TLS connection to become readable, with the
  configured timeout; if the last attempt signals \<^verbatim>\<open>WantReadError\<close> too, the same read wait
  follows and runs out; on any other signal no wait follows. In particular a
  \<^verbatim>\<open>WantWriteError\<close> is not waited on: the loop is left by that exception at once, as a
  handshake failure. No event of the run waits for write-readiness. And every run of the
  loop that returns is a run of this kind.
\<close>

theorem waits_for_read_only_after_want_read:
  "(retried ce t k m \<and> (do_handshake ce (k + m) = Some WantReadError \<longrightarrow> \<not> ready ce (k + m) t) \<longrightarrow>
      (\<exists>s'. handshake_loop (Suc (m + fuel)) ce c t k s =
               Some (final_result (do_handshake ce (k + m)), s') \<and>
            new_events s s' = concat (replicate m [DoHandshake, Select [c] [] [] t]) @
                                final_events c t (do_handshake ce (k + m)) \<and>
            (\<forall>ev\<in>set (new_events s s'). \<not> waits_for_write ev))) \<and>
   (retried ce t k m \<and> do_handshake ce (k + m) = Some WantWriteError \<longrightarrow>
      (\<exists>s'. handshake_loop (Suc (m + fuel)) ce c t k s = Some (Inl WantWriteError, s') \<and>
            new_events s s' = concat (replicate m [DoHandshake, Select [c] [] [] t]) @ [DoHandshake])) \<and>
   (handshake_loop fuel' ce c t k s = Some (r, s2) \<longrightarrow>
      (\<exists>n. retried ce t k n \<and>
            new_events s s2 = concat (replicate n [DoHandshake, Select [c] [] [] t]) @
                                final_events c t (do_handshake ce (k + n)) \<and>
            r = final_result (do_handshake ce (k + n)) \<and>
            (\<forall>ev\<in>set (new_events s s2). \<not> waits_for_write ev)))"
proof -
  have nw: "\<forall>ev\<in>set (concat (replicate j [DoHandshake, Select [c] [] [] t]) @
                final_events c t sig). \<not> waits_for_write ev" for j sig
  proof -
    have "\<forall>ev\<in>set (concat (replicate j [DoHandshake, Select [c] [] [] t]) @
                final_events c t sig). ev = DoHandshake \<or> ev = Select [c] [] [] t"
      using set_rounds set_final_events by fastforce
    moreover have "\<not> waits_for_write DoHandshake" "\<not> waits_for_write (Select [c] [] [] t)"
      by (simp_all add: waits_for_write_def)
    ultimately show ?thesis by metis
  qed
  have forward: "\<exists>s'. handshake_loop (Suc (m + fuel)) ce c t k s =
               Some (final_result (do_handshake ce (k + m)), s') \<and>
            new_events s s' = concat (replicate m [DoHandshake, Select [c] [] [] t]) @
                                final_events c t (do_handshake ce (k + m)) \<and>
            (\<forall>ev\<in>set (new_events s s'). \<not> waits_for_write ev)"
    if a: "retried ce t k m" "do_handshake ce (k + m) = Some WantReadError \<longrightarrow> \<not> ready ce (k + m) t"
  proof -
    let ?evs = "concat (replicate m [DoHandshake, Select [c] [] [] t]) @
                  final_events c t (do_handshake ce (k + m))"
    let ?s' = "s\<lparr>clock := clock s + total_wait ce t k m +
                       (if do_handshake ce (k + m) = Some WantReadError then t else 0),
                  trace := trace s @ ?evs\<rparr>"
    have h: "handshake_loop (Suc (m + fuel)) ce c t k s =
               Some (final_result (do_handshake ce (k + m)), ?s')"
      by (rule handshake_loop_total [OF a])
    have "trace ?s' = trace s @ ?evs" by simp
    then have n: "new_events s ?s' = ?evs" by (rule new_events_append)
    have "\<forall>ev\<in>set (new_events s ?s'). \<not> waits_for_write ev"
      unfolding n by (rule nw)
    with h n show ?thesis by blast
  qed
  have on_write: "\<exists>s'. handshake_loop (Suc (m + fuel)) ce c t k s = Some (Inl WantWriteError, s') \<and>
            new_events s s' = concat (replicate m [DoHandshake, Select [c] [] [] t]) @ [DoHandshake]"
    if a: "retried ce t k m" "do_handshake ce (k + m) = Some WantWriteError"
  proof -
    have "do_handshake ce (k + m) = Some WantReadError \<longrightarrow> \<not> ready ce (k + m) t"
      using a(2) by simp
    from forward [OF a(1) this] obtain s' where
      "handshake_loop (Suc (m + fuel)) ce c t k s =
         Some (final_result (do_handshake ce (k + m)), s')"
      "new_events s s' = concat (replicate m [DoHandshake, Select [c] [] [] t]) @
                           final_events c t (do_handshake ce (k + m))"
      by blast
    moreover have "final_result (do_handshake ce (k + m)) = Inl WantWriteError"
      "final_events c t (do_handshake ce (k + m)) = [DoHandshake]"
      using a(2) by (simp_all add: final_result_def final_events_def)
    ultimately show ?thesis by (metis (no_types))
  qed
  have backward: "\<exists>n. retried ce t k n \<and>
            new_events s s2 = concat (replicate n [DoHandshake, Select [c] [] [] t]) @
                                final_events c t (do_handshake ce (k + n)) \<and>
            r = final_result (do_handshake ce (k + n)) \<and>
            (\<forall>ev\<in>set (new_events s s2). \<not> waits_for_write ev)"
    if h: "handshake_loop fuel' ce c t k s = Some (r, s2)"
  proof -
    from handshake_loop_run [OF h] obtain n where
      m: "retried ce t k n" "r = final_result (do_handshake ce (k + n))"
      and tr: "trace s2 = trace s @ concat (replicate n [DoHandshake, Select [c] [] [] t]) @
                          final_events c t (do_handshake ce (k + n))"
      by blast
    have n: "new_events s s2 = concat (replicate n [DoHandshake, Select [c] [] [] t]) @
                          final_events c t (do_handshake ce (k + n))"
      using tr by (rule new_events_append)
    have "\<forall>ev\<in>set (new_events s s2). \<not> waits_for_write ev"
      unfolding n by (rule nw)
    with m n show ?thesis by blast
  qed
  from forward on_write backward show ?thesis by blast
qed

text \<open>
  The amended C1 at a peer for which the library signals \<^verbatim>\<open>WantReadError\<close> first and
  \<^verbatim>\<open>WantWriteError\<close> after one round trip: one read wait, then the second attempt, and the
  loop is left by \<^verbatim>\<open>WantWriteError\<close> with no further wait.
\<close>

theorem waits_for_read_only_after_want_read_witness:
  "retried peer_write_after_read 300 0 (Suc 0) \<and>
   do_handshake peer_write_after_read (0 + Suc 0) = Some WantWriteError \<and>
   handshake_loop (Suc (Suc 0)) peer_write_after_read (SslConn 0) 300 0 fresh =
     Some (Inl WantWriteError,
           fresh\<lparr>clock := 200,
             trace := [DoHandshake, Select [SslConn 0] [] [] 300, DoHandshake]\<rparr>) \<and>
   (\<exists>s'. handshake_loop (Suc (Suc 0 + 0)) peer_write_after_read (SslConn 0) 300 0 fresh =
            Some (Inl WantWriteError, s') \<and>
         new_events fresh s' =
           concat (replicate (Suc 0) [DoHandshake, Select [SslConn 0] [] [] 300]) @ [DoHandshake]) \<and>
   (\<exists>n. retried peer_write_after_read 300 0 n \<and>
         final_result (do_handshake peer_write_after_read (0 + n)) = Inl WantWriteError)"
proof -
  let ?s' = "fresh\<lparr>clock := 200,
             trace := [DoHandshake, Select [SslConn 0] [] [] 300, DoHandshake]\<rparr>"
  have a: "retried peer_write_after_read 300 0 (Suc 0)"
    "do_handshake peer_write_after_read (0 + Suc 0) = Some WantWriteError"
    by (simp_all add: peer_write_after_read_def peer_slow_def ready_def)
  have h: "handshake_loop (Suc (Suc 0)) peer_write_after_read (SslConn 0) 300 0 fresh =
             Some (Inl WantWriteError, ?s')"
    by (simp add: peer_write_after_read_def peer_slow_def fresh_def emit_def select_readable_def Let_def)
  note w = waits_for_read_only_after_want_read
    [where ce = peer_write_after_read and t = 300 and k = 0 and m = "Suc 0" and fuel = 0
       and c = "SslConn 0" and s = fresh and fuel' = "Suc (Suc 0)" and r = "Inl WantWriteError"
       and ?s2.0 = ?s']
  from w a have "\<exists>s'. handshake_loop (Suc (Suc 0 + 0)) peer_write_after_read (SslConn 0) 300 0 fresh =
            Some (Inl WantWriteError, s') \<and>
         new_events fresh s' =
           concat (replicate (Suc 0) [DoHandshake, Select [SslConn 0] [] [] 300]) @ [DoHandshake]"
    by blast
  moreover from w h have "\<exists>n. retried peer_write_after_read 300 0 n \<and>
         final_result (do_handshake peer_write_after_read (0 + n)) = Inl WantWriteError"
    by (metis (no_types))
  ultimately show ?thesis using a h by blast
qed

text \<open>
  C2, as the specification states it, at the slow peer under the timeout of 300: the
  handshake succeeds after waiting 400 in total, and the second wait is given the whole
  300 although 100 remained.
\<close>

theorem two_waits_exceed_the_timeout:
  "cls_timeout serving_implicit = 300 \<and>
   map_option (\<lambda>(r, s'). (r, clock s' - clock serving_implicit, new_events serving_implicit s'))
     (handler_init (Suc (Suc (Suc 0))) lib_ok peer_slow serving_implicit) =
     Some (Inr (), 400,
           [DoHandshake, Select [SslConn 0] [] [] 300, DoHandshake, Select [SslConn 0] [] [] 300,
            DoHandshake, SuperInit (SslConn 0)])"
  by (simp add: handler_init_def manual_handshake_def get_ssl_context_def call_super_init_def
      select_readable_def serving_implicit_eq peer_slow_def emit_def new_events_def Let_def)

text \<open>
  C2, amended: each readiness wait is bounded by the configured timeout itself, not by
  what is left of it. In every run of the constructor each wait is a
  \<^verbatim>\<open>select\<close> on the TLS connection with the full timeout \<open>T\<close>, so that the time waited is
  at most \<open>T\<close> times the number of waits. For a peer whose socket never becomes readable
  (the first attempt signalling \<^verbatim>\<open>WantReadError\<close>) the constructor ends, given fuel for
  one attempt: the handshake fails with \<^verbatim>\<open>TimeoutError\<close> after exactly \<open>T\<close>, and the raw
  connection is closed.
\<close>

theorem each_wait_gets_the_full_timeout:
  "(handler_init fuel lib ce s = Some (r, s') \<longrightarrow>
      (\<forall>ev\<in>set (new_events s s'). is_wait ev \<longrightarrow> (\<exists>i. ev = Select [SslConn i] [] [] (cls_timeout s))) \<and>
      clock s' \<le> clock s + length (filter is_wait (new_events s s')) * cls_timeout s) \<and>
   (implicit_tls s \<and> getpeername ce = None \<and> new_connection ce = None \<and>
    get_ssl_context lib s = (Some ctx, s1) \<and>
    do_handshake ce 0 = Some WantReadError \<and> (\<forall>k. readable_after ce k = None) \<longrightarrow>
      (\<exists>s2. handler_init (Suc fuel) lib ce s = Some (Inr (), s2) \<and>
         clock s2 = clock s + cls_timeout s \<and>
         new_events s s2 =
           [DoHandshake, Select [SslConn (ctx_id ctx)] [] [] (cls_timeout s),
            PrintHandshakeFailed timeout_error, Close RawConn]))"
proof (intro conjI impI)
  assume h: "handler_init fuel lib ce s = Some (r, s')"
  from handler_init_run [OF h] obtain evs where
    e: "trace s' = trace s @ evs"
    "\<forall>ev\<in>set evs. is_wait ev \<longrightarrow> handshake_event (cls_timeout s) ev"
    "clock s' \<le> clock s + length (filter is_wait evs) * cls_timeout s"
    by blast
  have n: "new_events s s' = evs" using e(1) by (rule new_events_append)
  show "\<forall>ev\<in>set (new_events s s'). is_wait ev \<longrightarrow> (\<exists>i. ev = Select [SslConn i] [] [] (cls_timeout s))"
    unfolding n using e(2) handshake_event_wait by blast
  show "clock s' \<le> clock s + length (filter is_wait (new_events s s')) * cls_timeout s"
    unfolding n by (rule e(3))
next
  assume a: "implicit_tls s \<and> getpeername ce = None \<and> new_connection ce = None \<and>
    get_ssl_context lib s = (Some ctx, s1) \<and>
    do_handshake ce 0 = Some WantReadError \<and> (\<forall>k. readable_after ce k = None)"
  then have g: "get_ssl_context lib s = (Some ctx, s1)" by simp
  have f: "clock s1 = clock s" "cls_timeout s1 = cls_timeout s"
    using get_ssl_context_frame(6,7) [OF g] by simp_all
  have t1: "trace s1 = trace s"
    using get_ssl_context_events [OF g] by auto
  let ?t = "cls_timeout s"
  let ?c = "SslConn (ctx_id ctx)"
  have nr: "do_handshake ce 0 = Some WantReadError \<longrightarrow> \<not> ready ce 0 ?t"
    using a by (simp add: ready_def)
  let ?s2 = "s1\<lparr>clock := clock s1 + (if do_handshake ce 0 = Some WantReadError then ?t else 0),
               trace := trace s1 @ final_events ?c ?t (do_handshake ce 0)\<rparr>"
  have l: "handshake_loop (Suc fuel) ce ?c ?t 0 s1 = Some (final_result (do_handshake ce 0), ?s2)"
    by (rule handshake_loop_final [OF nr])
  have fr: "final_result (do_handshake ce 0) = Inl timeout_error"
    using a by (simp add: final_result_def)
  have mh: "manual_handshake (Suc fuel) lib ce s = Some (Inl timeout_error, ?s2)"
    using a l fr f by (simp add: manual_handshake_def Let_def del: handshake_loop.simps)
  let ?s3 = "emit [PrintHandshakeFailed timeout_error, Close RawConn] ?s2"
  have h: "handler_init (Suc fuel) lib ce s = Some (Inr (), ?s3)"
    using a mh by (simp add: handler_init_def del: handshake_loop.simps)
  have c: "clock ?s3 = clock s + ?t"
    using a f by (simp add: emit_def)
  have "trace ?s3 = trace s @ [DoHandshake, Select [?c] [] [] ?t,
            PrintHandshakeFailed timeout_error, Close RawConn]"
    using a t1 by (simp add: emit_def final_events_def)
  then have "new_events s ?s3 = [DoHandshake, Select [?c] [] [] ?t,
            PrintHandshakeFailed timeout_error, Close RawConn]"
    by (rule new_events_append)
  with h c show "\<exists>s2. handler_init (Suc fuel) lib ce s = Some (Inr (), s2) \<and>
         clock s2 = clock s + cls_timeout s \<and>
         new_events s s2 =
           [DoHandshake, Select [SslConn (ctx_id ctx)] [] [] (cls_timeout s),
            PrintHandshakeFailed timeout_error, Close RawConn]"
    by blast
qed

text \<open>
  The amended C2 at the silent peer: one attempt, one wait of 300 that runs out, the
  failure printed and the raw connection closed, at time 300.
\<close>

theorem each_wait_gets_the_full_timeout_witness:
  "handler_init (Suc 0) lib_ok peer_silent serving_implicit =
     Some (Inr (), serving_implicit\<lparr>clock := 300,
       trace := [ServerCreated ''0.0.0.0'' 21, ServeForever,
                 DoHandshake, Select [SslConn 0] [] [] 300,
                 PrintHandshakeFailed timeout_error, Close RawConn]\<rparr>) \<and>
   implicit_tls serving_implicit \<and> getpeername peer_silent = None \<and>
   new_connection peer_silent = None \<and>
   get_ssl_context lib_ok serving_implicit = (Some (built_ctx 0), serving_implicit) \<and>
   do_handshake peer_silent 0 = Some WantReadError \<and> (\<forall>k. readable_after peer_silent k = None) \<and>
   (\<exists>s2. handler_init (Suc (Suc 0)) lib_ok peer_silent serving_implicit = Some (Inr (), s2) \<and>
      clock s2 = 300 \<and>
      new_events serving_implicit s2 =
        [DoHandshake, Select [SslConn 0] [] [] 300,
         PrintHandshakeFailed timeout_error, Close RawConn])"
proof -
  let ?s' = "serving_implicit\<lparr>clock := 300,
       trace := [ServerCreated ''0.0.0.0'' 21, ServeForever,
                 DoHandshake, Select [SslConn 0] [] [] 300,
                 PrintHandshakeFailed timeout_error, Close RawConn]\<rparr>"
  have h: "handler_init (Suc 0) lib_ok peer_silent serving_implicit = Some (Inr (), ?s')"
    by (simp add: handler_init_def manual_handshake_def get_ssl_context_def select_readable_def
        serving_implicit_eq peer_silent_def peer_slow_def emit_def timeout_error_def Let_def)
  have a: "implicit_tls serving_implicit \<and> getpeername peer_silent = None \<and>
      new_connection peer_silent = None \<and>
      get_ssl_context lib_ok serving_implicit = (Some (built_ctx 0), serving_implicit) \<and>
      do_handshake peer_silent 0 = Some WantReadError \<and> (\<forall>k. readable_after peer_silent k = None)"
    by (simp add: get_ssl_context_def serving_implicit_eq peer_silent_def peer_slow_def built_ctx_def)
  have v: "clock serving_implicit = 0" "cls_timeout serving_implicit = 300" "ctx_id (built_ctx 0) = 0"
    by (simp_all add: serving_implicit_eq built_ctx_def)
  from each_wait_gets_the_full_timeout
    [where fuel = "Suc 0" and lib = lib_ok and ce = peer_silent and s = serving_implicit
       and r = "Inr ()" and s' = ?s' and ctx = "built_ctx 0" and ?s1.0 = serving_implicit]
  have "\<exists>s2. handler_init (Suc (Suc 0)) lib_ok peer_silent serving_implicit = Some (Inr (), s2) \<and>
      clock s2 = 300 \<and>
      new_events serving_implicit s2 =
        [DoHandshake, Select [SslConn 0] [] [] 300,
         PrintHandshakeFailed timeout_error, Close RawConn]"
    using a v by (simp del: handshake_loop.simps)
  with h a show ?thesis by blast
qed

text \<open>
  C4: in implicit-TLS mode, whenever the manual handshake fails (the \<^verbatim>\<open>try\<close> block is left
  by an exception \<open>e\<close>, whichever it is: the timeout, an error of the TLS library, the
  missing context), the constructor returns normally, its last two actions being the
  print of the failure and the close of the raw connection; before that it has issued
  events of the handshake only, and the constructor of the protocol handler,
  \<^verbatim>\<open>super().__init__\<close>, is never called for the connection.
\<close>

theorem failed_handshake_closes_without_handler:
  assumes "implicit_tls s" and "getpeername ce = None"
    and "manual_handshake fuel lib ce s = Some (Inl e, s1)"
  shows "\<exists>s' evs. handler_init fuel lib ce s = Some (Inr (), s') \<and>
           new_events s s' = evs @ [PrintHandshakeFailed e, Close RawConn] \<and>
           (\<forall>ev\<in>set evs. handshake_event (cls_timeout s) ev) \<and>
           (\<forall>c. SuperInit c \<notin> set (new_events s s'))"
proof -
  let ?s' = "emit [PrintHandshakeFailed e, Close RawConn] s1"
  have h: "handler_init fuel lib ce s = Some (Inr (), ?s')"
    using assms by (simp add: handler_init_def)
  from manual_handshake_run [OF assms(3)] obtain evs where
    e: "trace s1 = trace s @ evs" "\<forall>ev\<in>set evs. handshake_event (cls_timeout s) ev"
    by blast
  have "trace ?s' = trace s @ (evs @ [PrintHandshakeFailed e, Close RawConn])"
    using e(1) by (simp add: emit_def)
  then have n: "new_events s ?s' = evs @ [PrintHandshakeFailed e, Close RawConn]"
    by (rule new_events_append)
  have "SuperInit c \<notin> set (new_events s ?s')" for c
    using e(2) unfolding n by auto
  with h n e(2) show ?thesis by blast
qed

text \<open>
  C4 at a peer that makes the TLS library raise a protocol error on the second attempt,
  after one round trip.
\<close>

theorem failed_handshake_closes_without_handler_witness:
  "implicit_tls serving_implicit \<and> getpeername peer_bad_hello = None \<and>
   manual_handshake (Suc (Suc 0)) lib_ok peer_bad_hello serving_implicit =
     Some (Inl (SSL_Error ''wrong version number''),
           serving_implicit\<lparr>clock := 200,
             trace := [ServerCreated ''0.0.0.0'' 21, ServeForever,
                       DoHandshake, Select [SslConn 0] [] [] 300, DoHandshake]\<rparr>) \<and>
   (\<exists>s' evs. handler_init (Suc (Suc 0)) lib_ok peer_bad_hello serving_implicit = Some (Inr (), s') \<and>
      new_events serving_implicit s' =
        evs @ [PrintHandshakeFailed (SSL_Error ''wrong version number''), Close RawConn] \<and>
      (\<forall>c. SuperInit c \<notin> set (new_events serving_implicit s')))"
proof -
  have i: "implicit_tls serving_implicit" and g: "getpeername peer_bad_hello = None"
    by (simp_all add: serving_implicit_eq peer_bad_hello_def peer_slow_def)
  have m: "manual_handshake (Suc (Suc 0)) lib_ok peer_bad_hello serving_implicit =
     Some (Inl (SSL_Error ''wrong version number''),
           serving_implicit\<lparr>clock := 200,
             trace := [ServerCreated ''0.0.0.0'' 21, ServeForever,
                       DoHandshake, Select [SslConn 0] [] [] 300, DoHandshake]\<rparr>)"
    by (simp add: manual_handshake_def get_ssl_context_def select_readable_def
        serving_implicit_eq peer_bad_hello_def peer_slow_def emit_def Let_def)
  from failed_handshake_closes_without_handler [OF i g m] i g m
  show ?thesis by blast
qed

section \<open>The context cache\<close>

text \<open>
  C5, as the specification states it, on two failures at different steps: with the key
  file missing the first step raises, with the certificate file missing the second does,
  and the two calls of the accessor cannot be told apart, neither by what they return
  (\<^verbatim>\<open>None\<close>, no error value) nor by what they print (the text of the exception, the same
  for both). The report does not say which step failed.
\<close>

theorem failure_report_names_no_step:
  "use_privatekey_file lib_no_key (cls_keyfile configured_implicit) =
     Some (SSL_Error ''No such file or directory'') \<and>
   use_privatekey_file lib_no_cert (cls_keyfile configured_implicit) = None \<and>
   use_certificate_file lib_no_cert (cls_certfile configured_implicit) =
     Some (SSL_Error ''No such file or directory'') \<and>
   get_ssl_context lib_no_key configured_implicit = get_ssl_context lib_no_cert configured_implicit \<and>
   fst (get_ssl_context lib_no_key configured_implicit) = None \<and>
   trace (snd (get_ssl_context lib_no_key configured_implicit)) =
     [PrintCtxError (SSL_Error ''No such file or directory'')]"
  by (simp add: get_ssl_context_def build_context_def configured_implicit_eq lib_no_key_def
      lib_no_cert_def lib_ok_def load_file_def emit_def Let_def)

text \<open>
  C5, amended: when the construction fails (one of the three loading steps raises \<open>e\<close>, the
  first to do so) with the cache empty, the call returns \<^verbatim>\<open>None\<close>, prints the exception
  \<open>e\<close> that the library raised, which is all it reports, and leaves the cache empty: the
  failure is not cached. Every later call, whatever the files are by then (\<open>lib'\<close>),
  builds again from scratch on a new context object: it fails in the same way if a step
  still raises, and returns and stores the new context if none does.
\<close>

theorem failed_construction_is_not_cached:
  assumes "ssl_context s = None"
    and "first_failing_step lib (cls_keyfile s) (cls_certfile s) = Some e"
    and "get_ssl_context lib s = (r, s')"
  shows "r = None \<and> ssl_context s' = None \<and> new_events s s' = [PrintCtxError e] \<and>
         (\<forall>lib' r2 s2. get_ssl_context lib' s' = (r2, s2) \<longrightarrow>
            (case first_failing_step lib' (cls_keyfile s) (cls_certfile s) of
               Some e' \<Rightarrow> r2 = None \<and> ssl_context s2 = None \<and> new_events s' s2 = [PrintCtxError e']
             | None \<Rightarrow>
                 (\<exists>ctx. r2 = Some ctx \<and> ssl_context s2 = Some ctx \<and> ctx_id ctx = Suc (next_id s) \<and>
                    build_context lib' (Suc (next_id s)) (cls_keyfile s) (cls_certfile s) = Inr ctx)))"
proof -
  have b: "build_context lib (next_id s) (cls_keyfile s) (cls_certfile s) = Inl e"
    using assms(2) by (simp add: build_context_Inl)
  have "get_ssl_context lib s = (None, emit [PrintCtxError e] (s\<lparr>next_id := Suc (next_id s)\<rparr>))"
    by (rule get_ssl_context_failure [OF assms(1) b])
  with assms(3) have r: "r = None" and s': "s' = emit [PrintCtxError e] (s\<lparr>next_id := Suc (next_id s)\<rparr>)"
    by simp_all
  have c: "ssl_context s' = None" using assms(1) by (simp add: s' emit_def)
  have k: "cls_keyfile s' = cls_keyfile s" "cls_certfile s' = cls_certfile s" "next_id s' = Suc (next_id s)"
    by (simp_all add: s' emit_def)
  have n: "new_events s s' = [PrintCtxError e]" by (simp add: new_events_def s' emit_def)
  have "case first_failing_step lib' (cls_keyfile s) (cls_certfile s) of
               Some e' \<Rightarrow> r2 = None \<and> ssl_context s2 = None \<and> new_events s' s2 = [PrintCtxError e']
             | None \<Rightarrow>
                 (\<exists>ctx. r2 = Some ctx \<and> ssl_context s2 = Some ctx \<and> ctx_id ctx = Suc (next_id s) \<and>
                    build_context lib' (Suc (next_id s)) (cls_keyfile s) (cls_certfile s) = Inr ctx)"
    if g: "get_ssl_context lib' s' = (r2, s2)" for lib' r2 s2
  proof (cases "build_context lib' (next_id s') (cls_keyfile s') (cls_certfile s')")
    case (Inl e')
    have "get_ssl_context lib' s' = (None, emit [PrintCtxError e'] (s'\<lparr>next_id := Suc (next_id s')\<rparr>))"
      by (rule get_ssl_context_failure [OF c Inl])
    with g have "r2 = None" and "s2 = emit [PrintCtxError e'] (s'\<lparr>next_id := Suc (next_id s')\<rparr>)"
      by simp_all
    moreover have "first_failing_step lib' (cls_keyfile s) (cls_certfile s) = Some e'"
      using Inl by (simp add: build_context_Inl k)
    ultimately show ?thesis by (simp add: emit_def new_events_def c)
  next
    case (Inr ctx)
    then have "first_failing_step lib' (cls_keyfile s) (cls_certfile s) = None"
      using build_context_Inl [of lib' "next_id s'" "cls_keyfile s" "cls_certfile s"]
      by (cases "first_failing_step lib' (cls_keyfile s) (cls_certfile s)") (auto simp: k)
    moreover have "r2 = Some ctx" "s2 = s'\<lparr>next_id := Suc (next_id s'), ssl_context := Some ctx\<rparr>"
      using g c Inr by (auto simp: get_ssl_context_def Let_def)
    moreover have "ctx_id ctx = Suc (next_id s)"
      using build_context_fields(2) [OF Inr] by (simp add: k)
    ultimately show ?thesis using Inr by (simp add: k)
  qed
  with r c n show ?thesis by blast
qed

text \<open>
  The amended C5 with the key file missing at the first call and present at the second:
  the first call prints the exception of \<^verbatim>\<open>use_privatekey_file\<close> and caches nothing, the
  second builds and caches the context object 1.
\<close>

theorem failed_construction_is_not_cached_witness:
  "ssl_context configured_implicit = None \<and>
   first_failing_step lib_no_key (cls_keyfile configured_implicit) (cls_certfile configured_implicit) =
     Some (SSL_Error ''No such file or directory'') \<and>
   get_ssl_context lib_no_key configured_implicit =
     (None, configured_implicit\<lparr>next_id := 1,
              trace := [PrintCtxError (SSL_Error ''No such file or directory'')]\<rparr>) \<and>
   get_ssl_context lib_ok
     (configured_implicit\<lparr>next_id := 1,
        trace := [PrintCtxError (SSL_Error ''No such file or directory'')]\<rparr>) =
     (Some (built_ctx 1),
      configured_implicit\<lparr>next_id := 2, ssl_context := Some (built_ctx 1),
        trace := [PrintCtxError (SSL_Error ''No such file or directory'')]\<rparr>) \<and>
   first_failing_step lib_ok (cls_keyfile configured_implicit) (cls_certfile configured_implicit) = None \<and>
   build_context lib_ok (Suc (next_id configured_implicit)) (cls_keyfile configured_implicit)
     (cls_certfile configured_implicit) = Inr (built_ctx 1)"
proof -
  let ?e = "SSL_Error ''No such file or directory''"
  let ?s' = "configured_implicit\<lparr>next_id := 1, trace := [PrintCtxError ?e]\<rparr>"
  let ?s2 = "configured_implicit\<lparr>next_id := 2, ssl_context := Some (built_ctx 1),
        trace := [PrintCtxError ?e]\<rparr>"
  have a: "ssl_context configured_implicit = None"
    by (simp add: configured_implicit_eq)
  have f: "first_failing_step lib_no_key (cls_keyfile configured_implicit)
             (cls_certfile configured_implicit) = Some ?e"
    by (simp add: first_failing_step_def lib_no_key_def lib_ok_def load_file_def configured_implicit_eq)
  have g: "get_ssl_context lib_no_key configured_implicit = (None, ?s')"
    by (simp add: get_ssl_context_def build_context_def configured_implicit_eq lib_no_key_def
        lib_ok_def load_file_def emit_def Let_def)
  have g2: "get_ssl_context lib_ok ?s' = (Some (built_ctx 1), ?s2)"
    by (simp add: get_ssl_context_def build_context_def configured_implicit_eq lib_ok_def load_file_def
        built_ctx_def Let_def)
  have f2: "first_failing_step lib_ok (cls_keyfile configured_implicit)
              (cls_certfile configured_implicit) = None"
    by (simp add: first_failing_step_def lib_ok_def load_file_def configured_implicit_eq)
  from failed_construction_is_not_cached [OF a f g]
  have "get_ssl_context lib_ok ?s' = (Some (built_ctx 1), ?s2) \<longrightarrow>
          (case first_failing_step lib_ok (cls_keyfile configured_implicit)
                  (cls_certfile configured_implicit) of
             Some e' \<Rightarrow> Some (built_ctx 1) = None \<and> ssl_context ?s2 = None \<and>
                 new_events ?s' ?s2 = [PrintCtxError e']
           | None \<Rightarrow>
               (\<exists>ctx. Some (built_ctx 1) = Some ctx \<and> ssl_context ?s2 = Some ctx \<and>
                  ctx_id ctx = Suc (next_id configured_implicit) \<and>
                  build_context lib_ok (Suc (next_id configured_implicit))
                    (cls_keyfile configured_implicit) (cls_certfile configured_implicit) = Inr ctx))"
    by blast
  with g2 f2 have "build_context lib_ok (Suc (next_id configured_implicit))
      (cls_keyfile configured_implicit) (cls_certfile configured_implicit) = Inr (built_ctx 1)"
    by auto
  with a f g g2 f2 show ?thesis by blast
qed

text \<open>
  C6: at most one context per handler class. Whatever calls came before, once a call of
  the accessor returns a context \<open>c\<close>, every later call returns \<open>c\<close> itself (the same
  object: the identity \<open>ctx_id\<close> is part of the value) and leaves the state as it is, so
  that no second context is allocated or stored; and no run of the handler's
  constructor changes the cached context.
\<close>

theorem context_built_once_and_reused:
  assumes "get_ssl_context_calls before s = (rs, s1)"
    and "get_ssl_context lib s1 = (Some c, s2)"
  shows "get_ssl_context_calls (before @ lib # later) s =
           (rs @ Some c # replicate (length later) (Some c), s2) \<and>
         ssl_context s2 = Some c \<and>
         (\<forall>fuel lib' ce r s3. handler_init fuel lib' ce s2 = Some (r, s3) \<longrightarrow> ssl_context s3 = Some c)"
proof -
  have c: "ssl_context s2 = Some c"
    using assms(2) by (rule get_ssl_context_Some_cached)
  have "get_ssl_context_calls (lib # later) s1 = (Some c # replicate (length later) (Some c), s2)"
    using assms(2) by (simp add: calls_cached [OF c])
  with assms(1) have "get_ssl_context_calls (before @ lib # later) s =
           (rs @ Some c # replicate (length later) (Some c), s2)"
    by (simp add: calls_append)
  with c handler_init_keeps_context [OF c] show ?thesis by blast
qed

text \<open>
  C6 on four calls, the first with the key file missing: the second call builds the
  context object 1, the third and fourth return that same object although the file is
  missing again at the third; a connection of the silent peer leaves it in place.
\<close>

theorem context_built_once_and_reused_witness:
  "get_ssl_context_calls [lib_no_key] configured_implicit =
     ([None], configured_implicit\<lparr>next_id := 1,
                trace := [PrintCtxError (SSL_Error ''No such file or directory'')]\<rparr>) \<and>
   get_ssl_context lib_ok
     (configured_implicit\<lparr>next_id := 1,
        trace := [PrintCtxError (SSL_Error ''No such file or directory'')]\<rparr>) =
     (Some (built_ctx 1),
      configured_implicit\<lparr>next_id := 2, ssl_context := Some (built_ctx 1),
        trace := [PrintCtxError (SSL_Error ''No such file or directory'')]\<rparr>) \<and>
   get_ssl_context_calls ([lib_no_key] @ lib_ok # [lib_no_key, lib_ok]) configured_implicit =
     ([None] @ Some (built_ctx 1) # replicate (length [lib_no_key, lib_ok]) (Some (built_ctx 1)),
      configured_implicit\<lparr>next_id := 2, ssl_context := Some (built_ctx 1),
        trace := [PrintCtxError (SSL_Error ''No such file or directory'')]\<rparr>) \<and>
   (\<exists>r s3. handler_init (Suc 0) lib_no_key peer_silent
      (configured_implicit\<lparr>next_id := 2, ssl_context := Some (built_ctx 1),
         trace := [PrintCtxError (SSL_Error ''No such file or directory'')]\<rparr>) = Some (r, s3) \<and>
      ssl_context s3 = Some (built_ctx 1))"
proof -
  let ?e = "SSL_Error ''No such file or directory''"
  let ?s1 = "configured_implicit\<lparr>next_id := 1, trace := [PrintCtxError ?e]\<rparr>"
  let ?s2 = "configured_implicit\<lparr>next_id := 2, ssl_context := Some (built_ctx 1),
        trace := [PrintCtxError ?e]\<rparr>"
  have g: "get_ssl_context_calls [lib_no_key] configured_implicit = ([None], ?s1)"
    by (simp add: get_ssl_context_def build_context_def configured_implicit_eq lib_no_key_def
        lib_ok_def load_file_def emit_def Let_def)
  have g2: "get_ssl_context lib_ok ?s1 = (Some (built_ctx 1), ?s2)"
    by (simp add: get_ssl_context_def build_context_def configured_implicit_eq lib_ok_def load_file_def
        built_ctx_def Let_def)
  have "\<exists>r s3. handler_init (Suc 0) lib_no_key peer_silent ?s2 = Some (r, s3)"
    by (simp add: handler_init_def manual_handshake_def get_ssl_context_def select_readable_def
        configured_implicit_eq peer_silent_def peer_slow_def emit_def Let_def)
  then obtain r s3 where h: "handler_init (Suc 0) lib_no_key peer_silent ?s2 = Some (r, s3)"
    by blast
  from context_built_once_and_reused [OF g g2, of "[lib_no_key, lib_ok]"] h
  have "get_ssl_context_calls ([lib_no_key] @ lib_ok # [lib_no_key, lib_ok]) configured_implicit =
     ([None] @ Some (built_ctx 1) # replicate (length [lib_no_key, lib_ok]) (Some (built_ctx 1)), ?s2)"
    and "ssl_context s3 = Some (built_ctx 1)"
    by blast+
  with g g2 h show ?thesis by blast
qed

text \<open>
  C7: every context the accessor builds (returns from an empty cache) has the four flags
  \<^verbatim>\<open>OP_NO_SSLv2\<close>, \<^verbatim>\<open>OP_NO_SSLv3\<close>, \<^verbatim>\<open>OP_NO_TLSv1\<close> and \<^verbatim>\<open>OP_NO_TLSv1_1\<close> set in its options,
  whatever the values of the constants and the default options are; so the protocol
  versions it can still negotiate are among TLS 1.2 and TLS 1.3.
\<close>

theorem built_context_disables_old_versions:
  assumes "ssl_context s = None" and "get_ssl_context lib s = (Some c, s')"
  shows "flag_set (ctx_options c) (OP_NO_SSLv2 lib) \<and> flag_set (ctx_options c) (OP_NO_SSLv3 lib) \<and>
         flag_set (ctx_options c) (OP_NO_TLSv1 lib) \<and> flag_set (ctx_options c) (OP_NO_TLSv1_1 lib) \<and>
         (\<forall>v. negotiable lib c v \<longrightarrow> v = TLSv1_2 \<or> v = TLSv1_3)"
proof -
  have b: "build_context lib (next_id s) (cls_keyfile s) (cls_certfile s) = Inr c"
    using assms by (rule get_ssl_context_built)
  have o: "ctx_options c = default_options lib OR
           (OP_NO_SSLv2 lib OR OP_NO_SSLv3 lib OR OP_NO_TLSv1 lib OR OP_NO_TLSv1_1 lib)"
    using b by (rule build_context_fields)
  have f2: "flag_set (ctx_options c) (OP_NO_SSLv2 lib)"
    and f3: "flag_set (ctx_options c) (OP_NO_SSLv3 lib)"
    and f10: "flag_set (ctx_options c) (OP_NO_TLSv1 lib)"
    and f11: "flag_set (ctx_options c) (OP_NO_TLSv1_1 lib)"
    unfolding o by (rule flag_set_mask)+
  have "negotiable lib c v \<longrightarrow> v = TLSv1_2 \<or> v = TLSv1_3" for v
    using f2 f3 f10 f11 by (cases v) (simp_all add: negotiable_def disabling_flag_def)
  with f2 f3 f10 f11 show ?thesis by blast
qed

text \<open>
  C7 on the context the implicit-mode class builds first: the four flags are set, TLS 1.1
  cannot be negotiated, TLS 1.2 can.
\<close>

theorem built_context_disables_old_versions_witness:
  "ssl_context configured_implicit = None \<and>
   get_ssl_context lib_ok configured_implicit =
     (Some (built_ctx 0), configured_implicit\<lparr>next_id := 1, ssl_context := Some (built_ctx 0)\<rparr>) \<and>
   flag_set (ctx_options (built_ctx 0)) (OP_NO_SSLv2 lib_ok) \<and>
   flag_set (ctx_options (built_ctx 0)) (OP_NO_SSLv3 lib_ok) \<and>
   flag_set (ctx_options (built_ctx 0)) (OP_NO_TLSv1 lib_ok) \<and>
   flag_set (ctx_options (built_ctx 0)) (OP_NO_TLSv1_1 lib_ok) \<and>
   \<not> negotiable lib_ok (built_ctx 0) TLSv1_1 \<and> negotiable lib_ok (built_ctx 0) TLSv1_2"
proof -
  have a: "ssl_context configured_implicit = None"
    by (simp add: configured_implicit_eq)
  have g: "get_ssl_context lib_ok configured_implicit =
     (Some (built_ctx 0), configured_implicit\<lparr>next_id := 1, ssl_context := Some (built_ctx 0)\<rparr>)"
    by (simp add: get_ssl_context_def build_context_def configured_implicit_eq lib_ok_def load_file_def
        built_ctx_def Let_def)
  have "negotiable lib_ok (built_ctx 0) TLSv1_2"
    by (simp add: negotiable_def disabling_flag_def)
  with built_context_disables_old_versions [OF a g] a g show ?thesis by blast
qed

section \<open>Startup\<close>

text \<open>
  C3, as the specification states it, at two startups in implicit mode. With the key
  file missing the context cannot be built and \<^verbatim>\<open>main\<close> returns without serving, but
  by then it has constructed the server object on the address, which binds the listening
  socket: the check of the context comes after. With \<^verbatim>\<open>--ftps-mode implicit\<close> and neither
  file given no context can be built either, and \<^verbatim>\<open>main\<close> turns no TLS requirement on,
  skips the check and enters the accept loop: the server serves without TLS.
\<close>

theorem socket_is_bound_before_the_context_check:
  "ftps_mode args_implicit = Some implicit \<and>
   first_failing_step lib_no_key (keyfile args_implicit) (certfile args_implicit) =
     Some (SSL_Error ''No such file or directory'') \<and>
   fst (main os_ok lib_no_key args_implicit fresh) = Inr () \<and>
   trace (snd (main os_ok lib_no_key args_implicit fresh)) =
     [PrintCtxError (SSL_Error ''No such file or directory''), ServerCreated ''0.0.0.0'' 21,
      PrintCtxError (SSL_Error ''No such file or directory''), PrintMainCritical] \<and>
   ftps_mode args_mode_only = Some implicit \<and>
   first_failing_step lib_ok (keyfile args_mode_only) (certfile args_mode_only) =
     Some (TypeError ''path must be a string'') \<and>
   fst (main os_ok lib_ok args_mode_only fresh) = Inr () \<and>
   trace (snd (main os_ok lib_ok args_mode_only fresh)) =
     [PrintCtxError (TypeError ''path must be a string''), ServerCreated ''0.0.0.0'' 21,
      ServeForever] \<and>
   \<not> implicit_tls (snd (main os_ok lib_ok args_mode_only fresh)) \<and>
   \<not> tls_control_required (snd (main os_ok lib_ok args_mode_only fresh))"
  by (simp add: main_def start_server_def get_ssl_context_def build_context_def
      first_failing_step_def configure_tls_def build_authorizer_def truthy_def emit_def Let_def
      os_ok_def lib_no_key_def lib_ok_def load_file_def args_implicit_def args_mode_only_def
      fresh_def)

text \<open>
  C3, amended: whenever certificate and key file are both given (which is when \<^verbatim>\<open>main\<close>
  turns on implicit TLS or the explicit-mode enforcement) and the context cannot be
  built, the server does not start serving: \<^verbatim>\<open>main\<close> never enters \<^verbatim>\<open>serve_forever\<close>, so no
  connection is accepted. When the startup gets as far as the server object, the library
  constructor tries the context and prints its error, binds the listening socket, and
  then \<^verbatim>\<open>main\<close> tries the context again, prints the error and returns.
\<close>

theorem tls_required_without_context_never_serves:
  assumes "truthy (certfile a)" and "truthy (keyfile a)" and "ssl_context s = None"
    and "first_failing_step lib (keyfile a) (certfile a) = Some e"
  shows "ServeForever \<notin> set (new_events s (snd (main os lib a s))) \<and>
         (isdir os (drive a) \<and> build_authorizer a = Inr t \<and> bind_listen os (host a, port a) = None \<longrightarrow>
            fst (main os lib a s) = Inr () \<and>
            new_events s (snd (main os lib a s)) =
              [PrintCtxError e, ServerCreated (host a) (port a), PrintCtxError e, PrintMainCritical])"
proof (cases "isdir os (drive a)")
  case False
  then show ?thesis by (simp add: main_def emit_def new_events_def)
next
  case True
  show ?thesis
  proof (cases "build_authorizer a")
    case (Inl x)
    with True show ?thesis
      by (simp add: main_def Let_def new_events_def configure_tls_frame)
  next
    case (Inr t')
    let ?s2 = "(configure_tls a s)\<lparr>authorizer := t', banner := ''pyftpdlib based ftpd ready.'',
                 lan_ip := Some (get_lan_ip os)\<rparr>"
    have m: "main os lib a s = start_server os lib (host a, port a) ?s2"
      using True Inr by (rule main_past_drive_check)
    let ?s0 = "emit [PrintCtxError e] (?s2\<lparr>next_id := Suc (next_id ?s2)\<rparr>)"
    have c0: "ssl_context ?s2 = None"
      using assms(3) by (simp add: configure_tls_frame)
    have b0: "build_context lib (next_id ?s2) (cls_keyfile ?s2) (cls_certfile ?s2) = Inl e"
      using assms(1,2,4) by (simp add: build_context_Inl configure_tls_certs)
    have g0: "get_ssl_context lib ?s2 = (None, ?s0)"
      by (rule get_ssl_context_failure [OF c0 b0])
    show ?thesis
    proof (cases "bind_listen os (host a, port a)")
      case (Some x)
      then have "main os lib a s = (Inl x, ?s0)"
        unfolding m using g0 by (simp add: start_server_def)
      then show ?thesis
        using Some by (simp add: emit_def new_events_def configure_tls_frame)
    next
      case None
      let ?s4 = "(emit [ServerCreated (host a) (port a)] ?s0)\<lparr>the_server :=
               Some \<lparr>address = (host a, port a), max_cons = 256, max_cons_per_ip = 5\<rparr>\<rparr>"
      have req: "implicit_tls ?s4 \<or> tls_control_required ?s4"
        using assms(1,2) by (auto simp: emit_def configure_tls_certs)
      have c: "ssl_context ?s4 = None"
        using assms(3) by (simp add: emit_def configure_tls_frame)
      have b: "build_context lib (next_id ?s4) (cls_keyfile ?s4) (cls_certfile ?s4) = Inl e"
        using assms(1,2,4) by (simp add: build_context_Inl emit_def configure_tls_certs)
      have g: "get_ssl_context lib ?s4 = (None, emit [PrintCtxError e] (?s4\<lparr>next_id := Suc (next_id ?s4)\<rparr>))"
        by (rule get_ssl_context_failure [OF c b])
      have r: "main os lib a s = (Inr (), emit [PrintMainCritical] (emit [PrintCtxError e] (?s4\<lparr>next_id := Suc (next_id ?s4)\<rparr>)))"
        unfolding m using None req g0 g by (simp add: start_server_def Let_def)
      have "trace (snd (main os lib a s)) = trace s @
              [PrintCtxError e, ServerCreated (host a) (port a), PrintCtxError e, PrintMainCritical]"
        by (simp add: r emit_def configure_tls_frame)
      then have "new_events s (snd (main os lib a s)) =
              [PrintCtxError e, ServerCreated (host a) (port a), PrintCtxError e, PrintMainCritical]"
        by (rule new_events_append)
      then show ?thesis by (simp add: r)
    qed
  qed
qed

text \<open>The amended C3 in implicit mode with the key file missing.\<close>

theorem tls_required_without_context_never_serves_witness:
  "truthy (certfile args_implicit) \<and> truthy (keyfile args_implicit) \<and> ssl_context fresh = None \<and>
   first_failing_step lib_no_key (keyfile args_implicit) (certfile args_implicit) =
     Some (SSL_Error ''No such file or directory'') \<and>
   isdir os_ok (drive args_implicit) \<and> build_authorizer args_implicit = Inr Map.empty \<and>
   bind_listen os_ok (host args_implicit, port args_implicit) = None \<and>
   ServeForever \<notin> set (new_events fresh (snd (main os_ok lib_no_key args_implicit fresh))) \<and>
   fst (main os_ok lib_no_key args_implicit fresh) = Inr () \<and>
   new_events fresh (snd (main os_ok lib_no_key args_implicit fresh)) =
     [PrintCtxError (SSL_Error ''No such file or directory''), ServerCreated ''0.0.0.0'' 21,
      PrintCtxError (SSL_Error ''No such file or directory''), PrintMainCritical]"
proof -
  have a: "truthy (certfile args_implicit)" "truthy (keyfile args_implicit)" "ssl_context fresh = None"
    by (simp_all add: truthy_def args_implicit_def fresh_def)
  have f: "first_failing_step lib_no_key (keyfile args_implicit) (certfile args_implicit) =
     Some (SSL_Error ''No such file or directory'')"
    by (simp add: first_failing_step_def lib_no_key_def lib_ok_def load_file_def args_implicit_def)
  have o: "isdir os_ok (drive args_implicit) \<and> build_authorizer args_implicit = Inr Map.empty \<and>
     bind_listen os_ok (host args_implicit, port args_implicit) = None"
    by (simp add: os_ok_def build_authorizer_def truthy_def args_implicit_def)
  have h: "host args_implicit = ''0.0.0.0''" "port args_implicit = 21"
    by (simp_all add: args_implicit_def)
  from tls_required_without_context_never_serves [OF a f, of os_ok Map.empty] o
  have "ServeForever \<notin> set (new_events fresh (snd (main os_ok lib_no_key args_implicit fresh))) \<and>
     fst (main os_ok lib_no_key args_implicit fresh) = Inr () \<and>
     new_events fresh (snd (main os_ok lib_no_key args_implicit fresh)) =
       [PrintCtxError (SSL_Error ''No such file or directory''), ServerCreated ''0.0.0.0'' 21,
        PrintCtxError (SSL_Error ''No such file or directory''), PrintMainCritical]"
    unfolding h by blast
  with a f o show ?thesis by blast
qed

text \<open>
  C8: with certificate and key file given and no \<^verbatim>\<open>--ftps-mode\<close>, \<^verbatim>\<open>main\<close> does exactly
  what it does for \<^verbatim>\<open>--ftps-mode explicit\<close>, and that is the enforcement of explicit TLS:
  the handler class requires TLS on the control and on the data channel and is not in
  implicit mode, when the attributes are set and still when \<^verbatim>\<open>main\<close> is past them.
\<close>

theorem certs_without_mode_enforce_explicit:
  assumes "truthy (certfile a)" and "truthy (keyfile a)" and "ftps_mode a = None"
  shows "main os lib a s = main os lib (a\<lparr>ftps_mode := Some explicit\<rparr>) s \<and>
         tls_control_required (configure_tls a s) \<and> tls_data_required (configure_tls a s) \<and>
         \<not> implicit_tls (configure_tls a s) \<and>
         (isdir os (drive a) \<longrightarrow>
            tls_control_required (snd (main os lib a s)) \<and> tls_data_required (snd (main os lib a s)) \<and>
            \<not> implicit_tls (snd (main os lib a s)))"
proof -
  have c: "configure_tls (a\<lparr>ftps_mode := Some explicit\<rparr>) s = configure_tls a s"
    using assms by (simp add: configure_tls_def Let_def)
  have b: "build_authorizer (a\<lparr>ftps_mode := Some explicit\<rparr>) = build_authorizer a"
    by (simp add: build_authorizer_def split: sum.splits)
  have m: "main os lib a s = main os lib (a\<lparr>ftps_mode := Some explicit\<rparr>) s"
    by (simp add: main_def c b Let_def split: sum.splits)
  have f: "tls_control_required (configure_tls a s)" "tls_data_required (configure_tls a s)"
    "\<not> implicit_tls (configure_tls a s)"
    using assms by (simp_all add: configure_tls_certs)
  have "tls_control_required (snd (main os lib a s)) \<and> tls_data_required (snd (main os lib a s)) \<and>
            \<not> implicit_tls (snd (main os lib a s))" if d: "isdir os (drive a)"
  proof (cases "build_authorizer a")
    case (Inl e)
    with d f show ?thesis by (simp add: main_def Let_def)
  next
    case (Inr t)
    let ?s2 = "(configure_tls a s)\<lparr>authorizer := t, banner := ''pyftpdlib based ftpd ready.'',
                      lan_ip := Some (get_lan_ip os)\<rparr>"
    have "main os lib a s = start_server os lib (host a, port a) ?s2"
      using d Inr by (rule main_past_drive_check)
    then show ?thesis
      using start_server_frame(1,2,3) [of os lib "(host a, port a)" ?s2 "fst (main os lib a s)" "snd (main os lib a s)"] f
      by simp
  qed
  with m f show ?thesis by blast
qed

text \<open>C8 at \<^verbatim>\<open>--certfile c.pem --keyfile k.pem\<close> without a mode.\<close>

theorem certs_without_mode_enforce_explicit_witness:
  "truthy (certfile args_certs_only) \<and> truthy (keyfile args_certs_only) \<and>
   ftps_mode args_certs_only = None \<and> isdir os_ok (drive args_certs_only) \<and>
   main os_ok lib_ok args_certs_only fresh =
     main os_ok lib_ok (args_certs_only\<lparr>ftps_mode := Some explicit\<rparr>) fresh \<and>
   tls_control_required (snd (main os_ok lib_ok args_certs_only fresh)) \<and>
   tls_data_required (snd (main os_ok lib_ok args_certs_only fresh)) \<and>
   \<not> implicit_tls (snd (main os_ok lib_ok args_certs_only fresh))"
proof -
  have a: "truthy (certfile args_certs_only)" "truthy (keyfile args_certs_only)"
    "ftps_mode args_certs_only = None"
    by (simp_all add: truthy_def args_certs_only_def args_implicit_def)
  have d: "isdir os_ok (drive args_certs_only)"
    by (simp add: os_ok_def)
  from certs_without_mode_enforce_explicit [OF a, of os_ok lib_ok fresh] a d
  show ?thesis by blast
qed

text \<open>
  C9, as the specification states it, at a configuration that supplies the ceilings 10
  and 2: the server that \<^verbatim>\<open>main\<close> starts has the ceilings 256 and 5.
\<close>

theorem configured_ceilings_are_not_consumed:
  "cfg_max_cons cfg_ten_two = 10 \<and> cfg_max_cons_per_ip cfg_ten_two = 2 \<and>
   the_server (snd (main os_ok lib_ok (cfg_args cfg_ten_two) fresh)) =
     Some \<lparr>address = (''0.0.0.0'', 21), max_cons = 256, max_cons_per_ip = 5\<rparr> \<and>
   last (trace (snd (main os_ok lib_ok (cfg_args cfg_ten_two) fresh))) = ServeForever \<and>
   \<not> enforces_configured_ceilings os_ok lib_ok cfg_ten_two fresh"
  by (simp add: enforces_configured_ceilings_def main_def start_server_def get_ssl_context_def
      build_context_def configure_tls_def build_authorizer_def add_anonymous_def add_user_def
      truthy_def emit_def Let_def os_ok_def lib_ok_def load_file_def cfg_ten_two_def
      args_user_only_def fresh_def)

text \<open>
  C9, amended: the two ceilings are constants of the program, not read from the startup
  configuration. Whenever \<^verbatim>\<open>main\<close> enters the accept loop, the server it runs has the
  global ceiling 256 and the per-address ceiling 5, whatever the arguments are.
\<close>

theorem ceilings_are_fixed_constants:
  assumes "ServeForever \<in> set (new_events s (snd (main os lib a s)))"
  shows "the_server (snd (main os lib a s)) =
           Some \<lparr>address = (host a, port a), max_cons = 256, max_cons_per_ip = 5\<rparr>"
proof (cases "isdir os (drive a)")
  case False
  with assms show ?thesis by (simp add: main_def emit_def new_events_def)
next
  case True
  show ?thesis
  proof (cases "build_authorizer a")
    case (Inl e)
    with True assms show ?thesis
      by (simp add: main_def Let_def new_events_def configure_tls_frame)
  next
    case (Inr t)
    let ?s2 = "(configure_tls a s)\<lparr>authorizer := t, banner := ''pyftpdlib based ftpd ready.'',
                 lan_ip := Some (get_lan_ip os)\<rparr>"
    have m: "main os lib a s = start_server os lib (host a, port a) ?s2"
      using True Inr by (rule main_past_drive_check)
    have t2: "trace ?s2 = trace s" by (simp add: configure_tls_frame)
    obtain evs where e: "trace (snd (main os lib a s)) = trace ?s2 @ evs"
      and k: "ServeForever \<in> set evs \<longrightarrow> the_server (snd (main os lib a s)) =
                Some \<lparr>address = (host a, port a), max_cons = 256, max_cons_per_ip = 5\<rparr>"
      using start_server_events [of os lib "(host a, port a)" ?s2 "fst (main os lib a s)" "snd (main os lib a s)"] m
      by auto
    have "new_events s (snd (main os lib a s)) = evs"
      using e t2 by (simp add: new_events_def)
    with assms k show ?thesis by simp
  qed
qed

text \<open>The amended C9 at the arguments \<^verbatim>\<open>--drive /srv --user alice --allow-anonymous\<close>.\<close>

theorem ceilings_are_fixed_constants_witness:
  "ServeForever \<in> set (new_events fresh (snd (main os_ok lib_ok args_user_only fresh))) \<and>
   the_server (snd (main os_ok lib_ok args_user_only fresh)) =
     Some \<lparr>address = (''0.0.0.0'', 21), max_cons = 256, max_cons_per_ip = 5\<rparr>"
proof -
  have s: "ServeForever \<in> set (new_events fresh (snd (main os_ok lib_ok args_user_only fresh)))"
    by (simp add: main_def start_server_def get_ssl_context_def build_context_def
        configure_tls_def build_authorizer_def add_anonymous_def add_user_def truthy_def
        emit_def new_events_def Let_def os_ok_def lib_ok_def load_file_def
        args_user_only_def fresh_def)
  have h: "host args_user_only = ''0.0.0.0''" "port args_user_only = 21"
    by (simp_all add: args_user_only_def)
  from ceilings_are_fixed_constants [OF s] s show ?thesis
    unfolding h by blast
qed

text \<open>
  C10: when exactly one of \<^verbatim>\<open>--user\<close> and \<^verbatim>\<open>--password\<close> is given, \<^verbatim>\<open>add_user\<close> is not
  called and nothing is raised: the account table that \<^verbatim>\<open>main\<close> hands to the handler holds
  the anonymous entry if \<^verbatim>\<open>--allow-anonymous\<close> is given, and is empty otherwise.
\<close>

theorem partial_credentials_register_nobody:
  assumes "(user a = None) \<noteq> (password a = None)"
  shows "build_authorizer a = Inr (anonymous_only a) \<and>
         dom (anonymous_only a) = (if allow_anonymous a then {''anonymous''} else {}) \<and>
         (isdir os (drive a) \<longrightarrow> authorizer (snd (main os lib a s)) = anonymous_only a)"
proof -
  have n: "\<not> (truthy (user a) \<and> truthy (password a))"
    using assms by (auto simp: truthy_def)
  have b: "build_authorizer a = Inr (anonymous_only a)"
    using n by (rule build_authorizer_partial)
  have "authorizer (snd (main os lib a s)) = anonymous_only a" if d: "isdir os (drive a)"
  proof -
    let ?s2 = "(configure_tls a s)\<lparr>authorizer := anonymous_only a,
                 banner := ''pyftpdlib based ftpd ready.'', lan_ip := Some (get_lan_ip os)\<rparr>"
    have "main os lib a s = start_server os lib (host a, port a) ?s2"
      using d b by (rule main_past_drive_check)
    then show ?thesis
      using start_server_frame(4) [of os lib "(host a, port a)" ?s2 "fst (main os lib a s)" "snd (main os lib a s)"]
      by simp
  qed
  moreover have "dom (anonymous_only a) = (if allow_anonymous a then {''anonymous''} else {})"
    by (simp add: anonymous_only_def)
  ultimately show ?thesis using b by blast
qed

text \<open>
  C10 at \<^verbatim>\<open>--user alice --allow-anonymous\<close> without a password: the table holds the
  anonymous entry and no entry for \<^verbatim>\<open>alice\<close>.
\<close>

theorem partial_credentials_register_nobody_witness:
  "(user args_user_only = None) \<noteq> (password args_user_only = None) \<and>
   isdir os_ok (drive args_user_only) \<and>
   build_authorizer args_user_only = Inr (anonymous_only args_user_only) \<and>
   dom (anonymous_only args_user_only) = {''anonymous''} \<and>
   authorizer (snd (main os_ok lib_ok args_user_only fresh)) = anonymous_only args_user_only \<and>
   authorizer (snd (main os_ok lib_ok args_user_only fresh)) ''alice'' = None"
proof -
  have a: "(user args_user_only = None) \<noteq> (password args_user_only = None)"
    by (simp add: args_user_only_def)
  have d: "isdir os_ok (drive args_user_only)"
    by (simp add: os_ok_def)
  have w: "allow_anonymous args_user_only"
    by (simp add: args_user_only_def)
  from partial_credentials_register_nobody [OF a, of os_ok lib_ok fresh] d w
  have r: "build_authorizer args_user_only = Inr (anonymous_only args_user_only)"
    "dom (anonymous_only args_user_only) = {''anonymous''}"
    "authorizer (snd (main os_ok lib_ok args_user_only fresh)) = anonymous_only args_user_only"
    by simp_all
  have "anonymous_only args_user_only ''alice'' = None"
    by (simp add: anonymous_only_def)
  with a d r show ?thesis by simp
qed


end
